theory Spec2Isabelle
  imports Complex_Main
begin

section \<open>JavaScript numbers and dates\<close>

text \<open>
  A JavaScript number is modelled as a real; the IEEE-754 rounding of the individual
  operations is not modelled. \<open>Math.round\<close> rounds half up: it is
  \<open>floor (x + 0.5)\<close>.
\<close>

definition js_round :: "real \<Rightarrow> real" where
  "js_round x = of_int \<lfloor>x + 1 / 2\<rfloor>"

text \<open>
  A calendar date is the number of days since 1970-01-01 (a Thursday). The strings
  \<open>yyyy-MM-dd\<close> that the code stores and compares are ordered as these
  numbers are. The date-fns functions are modelled at the granularity of a day.
\<close>

type_synonym day = int

definition getDay :: "day \<Rightarrow> nat" where
  "getDay d = nat ((d + 4) mod 7)"

definition startOfWeek :: "day \<Rightarrow> day" where
  \<comment> \<open>\<open>startOfWeek(d, { weekStartsOn: 1 })\<close>: the Monday on or before \<open>d\<close>\<close>
  "startOfWeek d = d - (d + 3) mod 7"

definition endOfWeek :: "day \<Rightarrow> day" where
  \<comment> \<open>\<open>endOfWeek(d, { weekStartsOn: 1 })\<close>: the Sunday on or after \<open>d\<close>\<close>
  "endOfWeek d = startOfWeek d + 6"

definition subWeeks :: "day \<Rightarrow> nat \<Rightarrow> day" where
  "subWeeks d n = d - 7 * int n"

definition addWeeks :: "day \<Rightarrow> nat \<Rightarrow> day" where
  "addWeeks d n = d + 7 * int n"

section \<open>The tables of the data store\<close>

record goal =
  g_id :: int
  g_user_id :: int
  race_distance :: string
  race_date :: day
  experience_level :: string
  current_frequency :: real
  longest_recent_run :: real
  available_days :: "string list"
  max_weekday_time :: real
  max_weekend_time :: real
  is_active :: int

record training_plan =
  tp_id :: int
  goal_id :: int
  tp_user_id :: int
  start_date :: day
  end_date :: day

record workout =
  w_id :: int
  plan_id :: int
  user_id :: int
  date :: day
  week_number :: nat
  workout_type :: string
  title :: string
  description :: string
  duration_minutes :: real
  intensity :: string
  tired_alternative :: string
  is_key_workout :: int
  is_long_run :: int
  completed :: int

record run_log =
  log_id :: int
  log_user_id :: int
  log_workout_id :: "int option"
  log_date :: day
  log_completed :: int
  log_duration_minutes :: real
  effort_level :: real
  pain_level :: "real option"

datatype adjustment_type = Reduce | Maintain | Increase

record weekly_adjustment =
  wa_id :: int
  wa_user_id :: int
  wa_plan_id :: int
  wa_week_number :: nat
  wa_adjustment_type :: adjustment_type
  wa_reason :: string

text \<open>
  The data store. Every table has an \<open>INTEGER PRIMARY KEY AUTOINCREMENT\<close>;
  the sequence fields hold the largest row id handed out so far in the tables
  the modelled code inserts into.
\<close>

record db =
  goals :: "goal list"
  training_plans :: "training_plan list"
  workouts :: "workout list"
  run_logs :: "run_log list"
  weekly_adjustments :: "weekly_adjustment list"
  seq_training_plans :: int
  seq_workouts :: int
  seq_weekly_adjustments :: int

section \<open>The adjustment engine (services/autoAdjust)\<close>

record WeeklyStats =
  totalRuns :: nat
  completedRuns :: nat
  plannedRuns :: nat
  averageEffort :: real
  averagePain :: real
  totalMinutes :: real
  missedKeyWorkouts :: nat

record AdjustmentRecommendation =
  rec_type :: adjustment_type
  reason :: string
  volumeMultiplier :: real
  intensityAdjustment :: int

text \<open>
  The rows of \<open>workouts w LEFT JOIN run_logs rl ON w.id = rl.workout_id\<close>
  for the workouts of a user dated in a range: one row per matching log, and one row
  with no log for a workout that has none.
\<close>

definition plannedWorkoutRows ::
  "db \<Rightarrow> int \<Rightarrow> day \<Rightarrow> day \<Rightarrow> (workout \<times> run_log option) list" where
  "plannedWorkoutRows s userId weekStart weekEnd =
     concat (map
       (\<lambda>w. case filter (\<lambda>l. log_workout_id l = Some (w_id w)) (run_logs s) of
              [] \<Rightarrow> [(w, None)]
            | ls \<Rightarrow> map (\<lambda>l. (w, Some l)) ls)
       (filter (\<lambda>w. user_id w = userId \<and> weekStart \<le> date w \<and> date w \<le> weekEnd)
          (workouts s)))"

definition row_log_completed :: "workout \<times> run_log option \<Rightarrow> bool" where
  \<comment> \<open>\<open>w.log_completed === 1\<close>\<close>
  "row_log_completed r = (case snd r of None \<Rightarrow> False | Some l \<Rightarrow> log_completed l = 1)"

definition analyzeWeeklyPerformance :: "day \<Rightarrow> db \<Rightarrow> int \<Rightarrow> nat \<Rightarrow> WeeklyStats option" where
  "analyzeWeeklyPerformance today s userId weekOffset =
     (let targetWeek = subWeeks today weekOffset;
          weekStart = startOfWeek targetWeek;
          weekEnd = endOfWeek targetWeek;
          plannedWorkouts = plannedWorkoutRows s userId weekStart weekEnd
      in if length plannedWorkouts = 0 then None
         else
           let allLogs = filter (\<lambda>l. log_user_id l = userId \<and> weekStart \<le> log_date l
                                      \<and> log_date l \<le> weekEnd) (run_logs s);
               completedPlanned = filter row_log_completed plannedWorkouts;
               missedKey = length (filter
                  (\<lambda>r. (is_key_workout (fst r) = 1 \<or> is_long_run (fst r) = 1)
                        \<and> \<not> row_log_completed r) plannedWorkouts);
               effortSum = foldl (\<lambda>sum l. sum + effort_level l) 0 allLogs;
               painSum = foldl (\<lambda>sum l. sum + (case pain_level l of None \<Rightarrow> 0 | Some p \<Rightarrow> p))
                           0 allLogs;
               minutes = foldl (\<lambda>sum l. sum + log_duration_minutes l) 0 allLogs
           in Some \<lparr> totalRuns = length allLogs,
                     completedRuns = length completedPlanned,
                     plannedRuns = length plannedWorkouts,
                     averageEffort = (if length allLogs > 0
                                      then effortSum / real (length allLogs) else 0),
                     averagePain = (if length allLogs > 0
                                    then painSum / real (length allLogs) else 0),
                     totalMinutes = minutes,
                     missedKeyWorkouts = missedKey \<rparr>)"

definition getAdjustmentRecommendation :: "WeeklyStats \<Rightarrow> AdjustmentRecommendation" where
  "getAdjustmentRecommendation stats =
     (if averagePain stats \<ge> 5 then
        \<lparr> rec_type = Reduce,
          reason = ''Pain levels are elevated. Reducing training to aid recovery.'',
          volumeMultiplier = 0.7, intensityAdjustment = -1 \<rparr>
      else
        let completionRate =
              (if plannedRuns stats > 0
               then real (completedRuns stats) / real (plannedRuns stats) else 0)
        in if completionRate < 0.5 then
             \<lparr> rec_type = Reduce,
               reason = ''Low workout completion rate. Adjusting plan to be more achievable.'',
               volumeMultiplier = 0.8, intensityAdjustment = 0 \<rparr>
           else if missedKeyWorkouts stats \<ge> 2 then
             \<lparr> rec_type = Reduce,
               reason = ''Missing key workouts. Reducing volume to prioritize important sessions.'',
               volumeMultiplier = 0.85, intensityAdjustment = 0 \<rparr>
           else if averageEffort stats \<ge> 8 \<and> completionRate \<ge> 0.8 then
             \<lparr> rec_type = Maintain,
               reason = ''Training feels hard but manageable. Maintaining current level.'',
               volumeMultiplier = 1.0, intensityAdjustment = 0 \<rparr>
           else if averageEffort stats < 6 \<and> completionRate \<ge> 0.9 \<and> averagePain stats < 2 then
             \<lparr> rec_type = Increase,
               reason = ''Consistent training with low perceived effort. Gradually increasing.'',
               volumeMultiplier = 1.05, intensityAdjustment = 0 \<rparr>
           else
             \<lparr> rec_type = Maintain,
               reason = ''Training is progressing well. Maintaining current plan.'',
               volumeMultiplier = 1.0, intensityAdjustment = 0 \<rparr>)"

record AdjustmentResult =
  applied :: bool
  adjustment :: "AdjustmentRecommendation option"

definition activePlan :: "db \<Rightarrow> int \<Rightarrow> training_plan option" where
  \<comment> \<open>\<open>SELECT tp.id FROM training_plans tp JOIN goals g ON tp.goal_id = g.id
      WHERE tp.user_id = ? AND g.is_active = 1\<close>, first row (in the order of the
      plans table)\<close>
  "activePlan s userId =
     find (\<lambda>tp. tp_user_id tp = userId
                \<and> list_ex (\<lambda>g. g_id g = goal_id tp \<and> is_active g = 1) (goals s))
          (training_plans s)"

definition currentWorkout :: "db \<Rightarrow> int \<Rightarrow> day \<Rightarrow> workout option" where
  \<comment> \<open>\<open>SELECT week_number FROM workouts WHERE plan_id = ? AND date >= ?
      ORDER BY date ASC LIMIT 1\<close>; among equal dates the first row of the table\<close>
  "currentWorkout s planId weekStart =
     (case filter (\<lambda>w. plan_id w = planId \<and> date w \<ge> weekStart) (workouts s) of
        [] \<Rightarrow> None
      | ws \<Rightarrow> Some (arg_min_list date ws))"

definition futureWorkouts :: "db \<Rightarrow> int \<Rightarrow> day \<Rightarrow> workout list" where
  \<comment> \<open>\<open>SELECT id, duration_minutes, is_key_workout, is_long_run FROM workouts
      WHERE plan_id = ? AND date >= ? AND completed = 0\<close>\<close>
  "futureWorkouts s planId weekStart =
     filter (\<lambda>w. plan_id w = planId \<and> date w \<ge> weekStart \<and> completed w = 0) (workouts s)"

definition updateStmt :: "real \<Rightarrow> int \<Rightarrow> db \<Rightarrow> db" where
  \<comment> \<open>\<open>UPDATE workouts SET duration_minutes = ? WHERE id = ?\<close>\<close>
  "updateStmt newDuration wid s =
     s\<lparr> workouts := map (\<lambda>w. if w_id w = wid then w\<lparr> duration_minutes := newDuration \<rparr> else w)
                        (workouts s) \<rparr>"

definition effectiveMultiplier :: "AdjustmentRecommendation \<Rightarrow> workout \<Rightarrow> real" where
  \<comment> \<open>key workouts and long runs are not reduced as much\<close>
  "effectiveMultiplier recommendation w =
     (let multiplier = volumeMultiplier recommendation
      in if (is_key_workout w \<noteq> 0 \<or> is_long_run w \<noteq> 0) \<and> rec_type recommendation = Reduce
         then max multiplier 0.85 else multiplier)"

definition adjustWorkout :: "AdjustmentRecommendation \<Rightarrow> db \<Rightarrow> workout \<Rightarrow> db" where
  \<comment> \<open>the body of \<open>futureWorkouts.forEach\<close>\<close>
  "adjustWorkout recommendation s w =
     (let newDuration = js_round (duration_minutes w * effectiveMultiplier recommendation w)
      in updateStmt newDuration (w_id w) s)"

definition insertAdjustment ::
  "int \<Rightarrow> int \<Rightarrow> nat \<Rightarrow> adjustment_type \<Rightarrow> string \<Rightarrow> db \<Rightarrow> db" where
  \<comment> \<open>\<open>INSERT INTO weekly_adjustments (user_id, plan_id, week_number, adjustment_type,
      reason) VALUES (?, ?, ?, ?, ?)\<close>\<close>
  "insertAdjustment userId planId weekNumber ty rsn s =
     s\<lparr> weekly_adjustments := weekly_adjustments s @
            [\<lparr> wa_id = seq_weekly_adjustments s + 1, wa_user_id = userId, wa_plan_id = planId,
               wa_week_number = weekNumber, wa_adjustment_type = ty, wa_reason = rsn \<rparr>],
        seq_weekly_adjustments := seq_weekly_adjustments s + 1 \<rparr>"

definition applyWeeklyAdjustment :: "day \<Rightarrow> db \<Rightarrow> int \<Rightarrow> AdjustmentResult \<times> db" where
  "applyWeeklyAdjustment today s userId =
     (case analyzeWeeklyPerformance today s userId 1 of
        None \<Rightarrow> (\<lparr> applied = False, adjustment = None \<rparr>, s)
      | Some stats \<Rightarrow>
          let recommendation = getAdjustmentRecommendation stats
          in if rec_type recommendation = Maintain
             then (\<lparr> applied = False, adjustment = Some recommendation \<rparr>, s)
             else
               let weekStart = startOfWeek today
               in case activePlan s userId of
                    None \<Rightarrow> (\<lparr> applied = False, adjustment = Some recommendation \<rparr>, s)
                  | Some plan \<Rightarrow>
                      (case currentWorkout s (tp_id plan) weekStart of
                         None \<Rightarrow> (\<lparr> applied = False, adjustment = Some recommendation \<rparr>, s)
                       | Some cw \<Rightarrow>
                           let s1 = foldl (adjustWorkout recommendation) s
                                      (futureWorkouts s (tp_id plan) weekStart);
                               s2 = insertAdjustment userId (tp_id plan) (week_number cw)
                                      (rec_type recommendation) (reason recommendation) s1
                           in (\<lparr> applied = True, adjustment = Some recommendation \<rparr>, s2)))"

section \<open>Property lookup in the constant tables\<close>

text \<open>
  \<open>RACE_CONFIGS\<close>, \<open>EXPERIENCE_MULTIPLIERS\<close> and \<open>DAY_MAP\<close> are
  object literals, and the code reads them with \<open>TABLE[key]\<close> for a key that
  comes from the goal. Such a read finds the table's own entries, and, for a key that
  names a property of \<open>Object.prototype\<close>, the inherited member (a function or
  an object, never \<open>undefined\<close>); for every other key it is
  \<open>undefined\<close>, here \<open>None\<close>.
\<close>

definition object_prototype_keys :: "string list" where
  "object_prototype_keys =
     [''constructor'', ''__defineGetter__'', ''__defineSetter__'', ''hasOwnProperty'',
      ''__lookupGetter__'', ''__lookupSetter__'', ''isPrototypeOf'',
      ''propertyIsEnumerable'', ''toString'', ''valueOf'', ''__proto__'',
      ''toLocaleString'']"

datatype 'a js_value = Own 'a | Inherited string

definition js_get :: "(string \<times> 'a) list \<Rightarrow> string \<Rightarrow> 'a js_value option" where
  "js_get table key =
     (case map_of table key of
        Some v \<Rightarrow> Some (Own v)
      | None \<Rightarrow> if key \<in> set object_prototype_keys then Some (Inherited key) else None)"

definition toLowerCase :: "string \<Rightarrow> string" where
  \<comment> \<open>on the letters A to Z; no other character lowers to a letter of a key of
      \<open>DAY_MAP\<close> or of \<open>Object.prototype\<close>\<close>
  "toLowerCase str =
     map (\<lambda>c. let n = (of_char c :: nat) in if 65 \<le> n \<and> n \<le> 90 then char_of (n + 32) else c)
       str"

section \<open>Numbers that may be NaN\<close>

text \<open>
  Where the code can compute with a value that is not a number, a number is a
  \<open>real option\<close> and \<open>None\<close> is NaN. A division by zero (NaN or an
  infinity in JavaScript) is \<open>None\<close> as well; it needs a week number or a
  number of weeks below 1, which \<open>generateTrainingPlan\<close> never passes.
\<close>

definition js_div :: "real \<Rightarrow> real \<Rightarrow> real option" where
  "js_div a b = (if b = 0 then None else Some (a / b))"

definition Math_floor :: "real \<Rightarrow> nat" where
  "Math_floor x = nat \<lfloor>x\<rfloor>"

definition Math_min :: "real option \<Rightarrow> real \<Rightarrow> real option" where
  "Math_min a b = map_option (\<lambda>x. min x b) a"

definition js_minus :: "real option \<Rightarrow> real option \<Rightarrow> real option" where
  "js_minus a b = (case (a, b) of (Some x, Some y) \<Rightarrow> Some (x - y) | _ \<Rightarrow> None)"

section \<open>The plan generator (services/trainingPlan)\<close>

record race_config =
  baseWeeks :: nat
  peakLongRun :: real
  peakWeeklyMinutes :: real

definition RACE_CONFIGS :: "(string \<times> race_config) list" where
  "RACE_CONFIGS =
     [(''5k'', \<lparr> baseWeeks = 8, peakLongRun = 45, peakWeeklyMinutes = 150 \<rparr>),
      (''10k'', \<lparr> baseWeeks = 10, peakLongRun = 60, peakWeeklyMinutes = 200 \<rparr>),
      (''half'', \<lparr> baseWeeks = 12, peakLongRun = 90, peakWeeklyMinutes = 280 \<rparr>),
      (''marathon'', \<lparr> baseWeeks = 16, peakLongRun = 150, peakWeeklyMinutes = 360 \<rparr>)]"

definition EXPERIENCE_MULTIPLIERS :: "(string \<times> real) list" where
  "EXPERIENCE_MULTIPLIERS = [(''beginner'', 0.7), (''intermediate'', 1.0), (''advanced'', 1.3)]"

definition DAY_MAP :: "(string \<times> nat) list" where
  "DAY_MAP =
     [(''sunday'', 0), (''monday'', 1), (''tuesday'', 2), (''wednesday'', 3),
      (''thursday'', 4), (''friday'', 5), (''saturday'', 6)]"

record WorkoutTemplate =
  t_type :: string
  t_title :: string
  t_description :: string
  durationMultiplier :: real
  t_intensity :: string
  isKeyWorkout :: bool
  isLongRun :: bool
  tiredAlternative :: string

datatype phase = Build | Peak | Taper

definition getWorkoutTemplates :: "string \<Rightarrow> phase \<Rightarrow> WorkoutTemplate list" where
  \<open>getWorkoutTemplates experienceLevel weekPhase =
     (let isAdvanced = (experienceLevel = ''advanced'');
          isBeginner = (experienceLevel = ''beginner'');
          templates =
            [\<lparr> t_type = ''easy'', t_title = ''Easy Run'',
               t_description = ''Run at a comfortable, conversational pace. You should be able to hold a conversation throughout.'',
               durationMultiplier = 1.0, t_intensity = ''low'',
               isKeyWorkout = False, isLongRun = False,
               tiredAlternative = ''Take a complete rest day or do a 20-minute walk instead.'' \<rparr>,
             \<lparr> t_type = ''long'', t_title = ''Long Run'',
               t_description = ''Your weekly long run. Start slow and maintain an easy, sustainable pace throughout. Focus on time on feet.'',
               durationMultiplier = 1.5, t_intensity = ''low'',
               isKeyWorkout = True, isLongRun = True,
               tiredAlternative = ''Reduce duration by 20-30% but still complete the run at an easy effort.'' \<rparr>];
          templates1 =
            (if \<not> isBeginner then templates @
               [\<lparr> t_type = ''tempo'', t_title = ''Tempo Run'',
                  t_description = ''Warm up for 10 minutes, then run at a "comfortably hard" pace for the main portion. Cool down for 10 minutes.'',
                  durationMultiplier = 1.1, t_intensity = ''moderate'',
                  isKeyWorkout = True, isLongRun = False,
                  tiredAlternative = ''Convert to an easy run at the same duration.'' \<rparr>]
             else templates);
          templates2 =
            (if isAdvanced \<or> (experienceLevel = ''intermediate'' \<and> weekPhase = Peak)
             then templates1 @
               [\<lparr> t_type = ''interval'', t_title = ''Interval Training'',
                  t_description = ''Warm up 10 minutes. Run hard efforts with recovery jogs between. Intensity should be challenging but controlled.'',
                  durationMultiplier = 0.9, t_intensity = ''high'',
                  isKeyWorkout = True, isLongRun = False,
                  tiredAlternative = ''Reduce the number of intervals by half, or convert to a tempo run.'' \<rparr>]
             else templates1)
      in templates2)\<close>

fun calculateWeeklyVolume ::
  "nat \<Rightarrow> nat \<Rightarrow> race_config \<Rightarrow> real \<Rightarrow> real \<Rightarrow> real \<Rightarrow> real option" where
  "calculateWeeklyVolume weekNumber totalWeeks raceConfig experienceMultiplier
       currentFrequency longestRecentRun =
     (let buildPhaseEnd = Math_floor (real totalWeeks * 0.6);
          peakPhaseEnd = Math_floor (real totalWeeks * 0.85);
          baseVolume =
            (if weekNumber \<le> buildPhaseEnd then
               map_option
                 (\<lambda>progress.
                    let startVolume = max (currentFrequency * 30) (longestRecentRun * 2)
                    in startVolume
                         + (peakWeeklyMinutes raceConfig * 0.7 - startVolume) * progress)
                 (js_div (real weekNumber) (real buildPhaseEnd))
             else if weekNumber \<le> peakPhaseEnd then
               map_option
                 (\<lambda>progress. peakWeeklyMinutes raceConfig * (0.7 + 0.3 * progress))
                 (js_div (real weekNumber - real buildPhaseEnd)
                         (real peakPhaseEnd - real buildPhaseEnd))
             else
               let weeksToRace = real totalWeeks - real weekNumber
               in map_option
                    (\<lambda>q. let taperMultiplier = 0.4 + q * 0.4
                         in peakWeeklyMinutes raceConfig * taperMultiplier)
                    (js_div weeksToRace (real totalWeeks - real peakPhaseEnd)));
          baseVolume1 = map_option (\<lambda>b. b * experienceMultiplier) baseVolume;
          previousWeekVolume =
            (if weekNumber > 1
             then calculateWeeklyVolume (weekNumber - 1) totalWeeks raceConfig
                    experienceMultiplier currentFrequency longestRecentRun
             else Some (currentFrequency * 30))
      in case (baseVolume1, previousWeekVolume) of
           (Some b, Some p) \<Rightarrow> Some (min b (p * 1.1))
         | _ \<Rightarrow> None)"

subsection \<open>Day values\<close>

text \<open>
  The values the code computes with as days: a day number (0 is Sunday), the member
  of \<open>Object.prototype\<close> that a lookup in \<open>DAY_MAP\<close> returned, or NaN
  (from \<open>Math.max\<close> over a list that holds such a member). A value of
  \<open>dayNumbers\<close> is never NaN, so \<open>!==\<close> and \<open>includes\<close> against
  it are inequality and membership of these values.
\<close>

datatype dayval = Day nat | Proto string | NaN

definition dayNumbersOf :: "string list \<Rightarrow> dayval list" where
  \<comment> \<open>\<open>days.map(d => DAY_MAP[d.toLowerCase()]).filter(d => d !== undefined)\<close>\<close>
  "dayNumbersOf days =
     List.map_filter
       (\<lambda>d. map_option (\<lambda>v. case v of Own n \<Rightarrow> Day n | Inherited k \<Rightarrow> Proto k)
              (js_get DAY_MAP (toLowerCase d)))
       days"

definition isWeekend :: "dayval \<Rightarrow> bool" where
  \<comment> \<open>\<open>d === 0 || d === 6\<close>\<close>
  "isWeekend d = (d = Day 0 \<or> d = Day 6)"

definition num_max :: "dayval \<Rightarrow> dayval \<Rightarrow> dayval" where
  "num_max a b = (case (a, b) of (Day x, Day y) \<Rightarrow> Day (max x y) | _ \<Rightarrow> NaN)"

fun Math_max :: "dayval list \<Rightarrow> dayval" where
  \<comment> \<open>\<open>Math.max(...ds)\<close>; the code spreads non-empty lists only (of no arguments
      it is \<open>-Infinity\<close>)\<close>
  "Math_max [] = NaN"
| "Math_max (d # ds) = foldl num_max (num_max d d) ds"

definition notAdjacent :: "dayval \<Rightarrow> dayval \<Rightarrow> bool" where
  \<comment> \<open>\<open>Math.abs(d - l) > 1 && Math.abs(d - l) !== 6\<close>; false when the
      difference is NaN\<close>
  "notAdjacent d l =
     (case (d, l) of
        (Day n, Day m) \<Rightarrow> \<bar>int n - int m\<bar> > 1 \<and> \<bar>int n - int m\<bar> \<noteq> 6
      | _ \<Rightarrow> False)"

definition dayOffset :: "dayval \<Rightarrow> nat option" where
  \<comment> \<open>\<open>day === 0 ? 6 : day - 1\<close>; NaN for a day that is not a number\<close>
  "dayOffset d = (case d of Day n \<Rightarrow> Some (if n = 0 then 6 else n - 1) | _ \<Rightarrow> None)"

definition addDays :: "day \<Rightarrow> nat option \<Rightarrow> day option" where
  \<comment> \<open>\<open>None\<close> is the Invalid Date that date-fns returns for a NaN amount\<close>
  "addDays d amount = map_option (\<lambda>k. d + int k) amount"

subsection \<open>Inserting workouts\<close>

datatype error = RangeError | TypeError | SqliteError

definition insertRow ::
  "int \<Rightarrow> int \<Rightarrow> day \<Rightarrow> nat \<Rightarrow> string \<Rightarrow> string \<Rightarrow> string \<Rightarrow> real \<Rightarrow> string \<Rightarrow> string
     \<Rightarrow> int \<Rightarrow> int \<Rightarrow> db \<Rightarrow> db" where
  \<comment> \<open>\<open>INSERT INTO workouts (plan_id, user_id, date, week_number, workout_type, title,
      description, duration_minutes, intensity, tired_alternative, is_key_workout,
      is_long_run) VALUES (?, ..., ?)\<close>; \<open>completed\<close> takes its default 0\<close>
  "insertRow planId userId d weekNumber ty ttl descr minutes inten tired isKey isLong s =
     s\<lparr> workouts := workouts s @
            [\<lparr> w_id = seq_workouts s + 1, plan_id = planId, user_id = userId, date = d,
               week_number = weekNumber, workout_type = ty, title = ttl, description = descr,
               duration_minutes = minutes, intensity = inten, tired_alternative = tired,
               is_key_workout = isKey, is_long_run = isLong, completed = 0 \<rparr>],
        seq_workouts := seq_workouts s + 1 \<rparr>"

definition insertWorkout ::
  "int \<Rightarrow> int \<Rightarrow> day option \<Rightarrow> nat \<Rightarrow> (WorkoutTemplate \<Rightarrow> string) \<Rightarrow> WorkoutTemplate option
     \<Rightarrow> real option \<Rightarrow> int \<Rightarrow> int \<Rightarrow> db \<Rightarrow> error option \<times> db" where
  \<comment> \<open>\<open>insertWorkout.run(planId, userId, format(date, 'yyyy-MM-dd'), weekNumber, type,
      t.title, t.description, duration, t.intensity, t.tiredAlternative, key, long)\<close>:
      \<open>format\<close> throws a RangeError on an Invalid Date, reading a field of an
      undefined template throws a TypeError, and a NaN duration is bound as NULL, which
      the NOT NULL column refuses\<close>
  "insertWorkout planId userId d weekNumber ty template minutes isKey isLong s =
     (case d of
        None \<Rightarrow> (Some RangeError, s)
      | Some dt \<Rightarrow>
          (case template of
             None \<Rightarrow> (Some TypeError, s)
           | Some t \<Rightarrow>
               (case minutes of
                  None \<Rightarrow> (Some SqliteError, s)
                | Some m \<Rightarrow>
                    (None, insertRow planId userId dt weekNumber (ty t) (t_title t)
                             (t_description t) m (t_intensity t) (tiredAlternative t)
                             isKey isLong s))))"

fun forEach :: "('a \<Rightarrow> db \<Rightarrow> error option \<times> db) \<Rightarrow> 'a list \<Rightarrow> db \<Rightarrow> error option \<times> db" where
  \<comment> \<open>a loop whose body may throw: the first exception ends it\<close>
  "forEach body [] s = (None, s)"
| "forEach body (x # xs) s =
     (case body x s of
        (Some e, s1) \<Rightarrow> (Some e, s1)
      | (None, s1) \<Rightarrow> forEach body xs s1)"

definition insertKeyWorkout ::
  "int \<Rightarrow> int \<Rightarrow> nat \<Rightarrow> day \<Rightarrow> WorkoutTemplate list \<Rightarrow> dayval option \<Rightarrow> string \<Rightarrow> real option
     \<Rightarrow> real \<Rightarrow> real \<Rightarrow> db \<Rightarrow> error option \<times> db \<times> real option" where
  \<comment> \<open>the block \<open>if (keyWorkoutDay !== undefined && experienceLevel !== 'beginner')
      { ... }\<close>; the third component is \<open>remainingVolume\<close> after it\<close>
  "insertKeyWorkout planId userId weekNumber weekStart templates keyWorkoutDay experienceLevel
       remainingVolume maxWeekdayTime maxWeekendTime s =
     (case keyWorkoutDay of
        None \<Rightarrow> (None, s, remainingVolume)
      | Some kd \<Rightarrow>
          if experienceLevel \<noteq> ''beginner'' then
            let keyTemplate =
                  (case find (\<lambda>t. t_type t = ''tempo'' \<or> t_type t = ''interval'') templates of
                     Some t \<Rightarrow> Some t
                   | None \<Rightarrow> (case templates of [] \<Rightarrow> None | t # _ \<Rightarrow> Some t));
                keyWorkoutDuration =
                  Math_min (map_option (\<lambda>v. js_round (v * 0.3)) remainingVolume)
                    (if isWeekend kd then maxWeekendTime else maxWeekdayTime);
                keyWorkoutDate = addDays weekStart (dayOffset kd)
            in case insertWorkout planId userId keyWorkoutDate weekNumber t_type keyTemplate
                      keyWorkoutDuration 1 0 s of
                 (e, s1) \<Rightarrow> (e, s1, js_minus remainingVolume keyWorkoutDuration)
          else (None, s, remainingVolume))"

definition insertEasyRuns ::
  "int \<Rightarrow> int \<Rightarrow> nat \<Rightarrow> day \<Rightarrow> WorkoutTemplate list \<Rightarrow> dayval list \<Rightarrow> real option
     \<Rightarrow> real \<Rightarrow> real \<Rightarrow> db \<Rightarrow> error option \<times> db" where
  \<comment> \<open>the last block: the remaining volume is spread over the easy days\<close>
  "insertEasyRuns planId userId weekNumber weekStart templates easyDays remainingVolume
       maxWeekdayTime maxWeekendTime s =
     (let easyTemplate = find (\<lambda>t. t_type t = ''easy'') templates;
          easyRunCount = length easyDays
      in if easyRunCount > 0 then
           let easyRunDuration =
                 map_option (\<lambda>v. js_round (v / real easyRunCount)) remainingVolume
           in forEach
                (\<lambda>day.
                   let maxTime = (if isWeekend day then maxWeekendTime else maxWeekdayTime);
                       duration = Math_min easyRunDuration maxTime;
                       workoutDate = addDays weekStart (dayOffset day)
                   in insertWorkout planId userId workoutDate weekNumber (\<lambda>t. ''easy'')
                        easyTemplate duration 0 0)
                easyDays s
         else (None, s))"

definition generateWeekWorkouts ::
  "int \<Rightarrow> int \<Rightarrow> nat \<Rightarrow> day \<Rightarrow> string list \<Rightarrow> real option \<Rightarrow> string \<Rightarrow> real \<Rightarrow> real \<Rightarrow> phase
     \<Rightarrow> db \<Rightarrow> error option \<times> db" where
  "generateWeekWorkouts planId userId weekNumber weekStart availableDays weeklyVolume
       experienceLevel maxWeekdayTime maxWeekendTime phase s =
     (let templates = getWorkoutTemplates experienceLevel phase;
          dayNumbers = dayNumbersOf availableDays
      in if length dayNumbers = 0 then (None, s)
         else
           let weekendDays = filter isWeekend dayNumbers;
               longRunDay = (if length weekendDays > 0 then Math_max weekendDays
                             else Math_max dayNumbers);
               keyWorkoutCandidates =
                 filter (\<lambda>d. d \<noteq> longRunDay \<and> notAdjacent d longRunDay) dayNumbers;
               keyWorkoutDay =
                 (if length keyWorkoutCandidates > 0
                  then Some (keyWorkoutCandidates ! (length keyWorkoutCandidates div 2))
                  else find (\<lambda>d. d \<noteq> longRunDay) dayNumbers);
               longRunTemplate = find (\<lambda>t. t_type t = ''long'') templates;
               longRunDuration =
                 Math_min (map_option (\<lambda>v. js_round (v * 0.35)) weeklyVolume)
                   (if isWeekend longRunDay then maxWeekendTime else maxWeekdayTime);
               remainingVolume = js_minus weeklyVolume longRunDuration;
               easyDays = filter (\<lambda>d. d \<noteq> longRunDay \<and> Some d \<noteq> keyWorkoutDay) dayNumbers;
               longRunDate = addDays weekStart (dayOffset longRunDay)
           in case insertWorkout planId userId longRunDate weekNumber (\<lambda>t. ''long'')
                     longRunTemplate longRunDuration 1 1 s of
                (Some e, s1) \<Rightarrow> (Some e, s1)
              | (None, s1) \<Rightarrow>
                  (case insertKeyWorkout planId userId weekNumber weekStart templates
                          keyWorkoutDay experienceLevel remainingVolume maxWeekdayTime
                          maxWeekendTime s1 of
                     (Some e, s2, _) \<Rightarrow> (Some e, s2)
                   | (None, s2, remainingVolume1) \<Rightarrow>
                       insertEasyRuns planId userId weekNumber weekStart templates easyDays
                         remainingVolume1 maxWeekdayTime maxWeekendTime s2))"

definition weekPhase :: "nat \<Rightarrow> nat \<Rightarrow> phase" where
  \<comment> \<open>\<open>week <= totalWeeks * 0.6 ? 'build' : (week <= totalWeeks * 0.85 ? 'peak' : 'taper')\<close>\<close>
  "weekPhase week totalWeeks =
     (if real week \<le> real totalWeeks * 0.6 then Build
      else if real week \<le> real totalWeeks * 0.85 then Peak else Taper)"

definition selectRaceConfig :: "string \<Rightarrow> race_config js_value" where
  \<comment> \<open>\<open>RACE_CONFIGS[goal.race_distance] || RACE_CONFIGS['5k']\<close>; an inherited
      member is an object or a function, hence truthy\<close>
  "selectRaceConfig distance =
     (case js_get RACE_CONFIGS distance of
        Some c \<Rightarrow> c
      | None \<Rightarrow> Own \<lparr> baseWeeks = 8, peakLongRun = 45, peakWeeklyMinutes = 150 \<rparr>)"

definition selectExperienceMultiplier :: "string \<Rightarrow> real js_value" where
  \<comment> \<open>\<open>EXPERIENCE_MULTIPLIERS[goal.experience_level] || 1.0\<close>; the three
      multipliers of the table are not zero, and an inherited member is truthy\<close>
  "selectExperienceMultiplier level =
     (case js_get EXPERIENCE_MULTIPLIERS level of
        Some m \<Rightarrow> m
      | None \<Rightarrow> Own 1.0)"

definition weeklyVolumeFor ::
  "race_config js_value \<Rightarrow> real js_value \<Rightarrow> nat \<Rightarrow> nat \<Rightarrow> real \<Rightarrow> real \<Rightarrow> real option" where
  \<comment> \<open>the call of \<open>calculateWeeklyVolume\<close>. With an inherited member for the
      configuration, \<open>raceConfig.peakWeeklyMinutes\<close> is undefined, and with one
      for the multiplier, \<open>baseVolume *= experienceMultiplier\<close> multiplies by a
      function or an object: each phase formula is then NaN, and so is the minimum.\<close>
  "weeklyVolumeFor raceConfig experienceMultiplier week totalWeeks currentFrequency
       longestRecentRun =
     (case (raceConfig, experienceMultiplier) of
        (Own c, Own m) \<Rightarrow>
          calculateWeeklyVolume week totalWeeks c m currentFrequency longestRecentRun
      | _ \<Rightarrow> None)"

definition insertPlan :: "int \<Rightarrow> int \<Rightarrow> day \<Rightarrow> day \<Rightarrow> db \<Rightarrow> db" where
  \<comment> \<open>\<open>INSERT INTO training_plans (goal_id, user_id, start_date, end_date)\<close>\<close>
  "insertPlan goalId userId startDate endDate s =
     s\<lparr> training_plans := training_plans s @
            [\<lparr> tp_id = seq_training_plans s + 1, goal_id = goalId, tp_user_id = userId,
               start_date = startDate, end_date = endDate \<rparr>],
        seq_training_plans := seq_training_plans s + 1 \<rparr>"

definition generateTrainingPlan :: "day \<Rightarrow> int \<Rightarrow> goal \<Rightarrow> db \<Rightarrow> (error + int) \<times> db" where
  \<comment> \<open>\<open>today\<close> is the day of \<open>new Date()\<close> and \<open>weeksToRace\<close> the value
      of \<open>differenceInWeeks(raceDate, today)\<close>\<close>
  "generateTrainingPlan today weeksToRace goal s =
     (let availableDays = available_days goal;
          totalWeeks = nat (max 1 weeksToRace);
          raceConfig = selectRaceConfig (race_distance goal);
          experienceMultiplier = selectExperienceMultiplier (experience_level goal);
          planId = seq_training_plans s + 1;
          s1 = insertPlan (g_id goal) (g_user_id goal) today (race_date goal) s
      in case forEach
                (\<lambda>week.
                   let weekStart = addWeeks (startOfWeek today) (week - 1);
                       weeklyVolume = weeklyVolumeFor raceConfig experienceMultiplier week
                                        totalWeeks (current_frequency goal)
                                        (longest_recent_run goal)
                   in generateWeekWorkouts planId (g_user_id goal) week weekStart availableDays
                        weeklyVolume (experience_level goal) (max_weekday_time goal)
                        (max_weekend_time goal) (weekPhase week totalWeeks))
                [1 ..< Suc totalWeeks] s1 of
           (Some e, s2) \<Rightarrow> (Inl e, s2)
         | (None, s2) \<Rightarrow> (Inr planId, s2))"

subsection \<open>Rescheduling a week\<close>

definition inWeek :: "int \<Rightarrow> int \<Rightarrow> nat \<Rightarrow> workout \<Rightarrow> bool" where
  \<comment> \<open>\<open>WHERE plan_id = ? AND user_id = ? AND week_number = ?\<close>\<close>
  "inWeek planId userId weekNumber w =
     (plan_id w = planId \<and> user_id w = userId \<and> week_number w = weekNumber)"

definition deleteWeek :: "int \<Rightarrow> int \<Rightarrow> nat \<Rightarrow> db \<Rightarrow> db" where
  \<comment> \<open>\<open>DELETE FROM workouts WHERE ...\<close>; foreign keys are on, and
      \<open>run_logs.workout_id\<close> is \<open>ON DELETE SET NULL\<close>\<close>
  "deleteWeek planId userId weekNumber s =
     s\<lparr> workouts := filter (\<lambda>w. \<not> inWeek planId userId weekNumber w) (workouts s),
        run_logs :=
          map (\<lambda>l. if list_ex (\<lambda>w. inWeek planId userId weekNumber w
                                   \<and> log_workout_id l = Some (w_id w)) (workouts s)
                    then l\<lparr> log_workout_id := None \<rparr> else l)
              (run_logs s) \<rparr>"

definition reinsertWorkout ::
  "int \<Rightarrow> int \<Rightarrow> day option \<Rightarrow> nat \<Rightarrow> workout \<Rightarrow> int \<Rightarrow> int \<Rightarrow> db \<Rightarrow> error option \<times> db" where
  \<comment> \<open>\<open>insertWorkout.run(planId, userId, format(date, 'yyyy-MM-dd'), weekNumber,
      w.workout_type, w.title, w.description, w.duration_minutes, w.intensity,
      w.tired_alternative, key, long)\<close>\<close>
  "reinsertWorkout planId userId d weekNumber w isKey isLong s =
     (case d of
        None \<Rightarrow> (Some RangeError, s)
      | Some dt \<Rightarrow>
          (None, insertRow planId userId dt weekNumber (workout_type w) (title w)
                   (description w) (duration_minutes w) (intensity w) (tired_alternative w)
                   isKey isLong s))"

definition remainingDaysOf :: "dayval list \<Rightarrow> dayval list \<Rightarrow> dayval list" where
  \<comment> \<open>\<open>dayNumbers.filter(d => !usedDays.includes(d))\<close>\<close>
  "remainingDaysOf dayNumbers usedDays = filter (\<lambda>d. d \<notin> set usedDays) dayNumbers"

definition placeLongRun ::
  "int \<Rightarrow> int \<Rightarrow> nat \<Rightarrow> day \<Rightarrow> dayval list \<Rightarrow> workout option \<Rightarrow> db
     \<Rightarrow> error option \<times> db \<times> dayval list" where
  \<comment> \<open>the block \<open>if (longRun) { ... }\<close>; the third component is \<open>usedDays\<close>\<close>
  "placeLongRun planId userId weekNumber weekStart dayNumbers longRun s =
     (case longRun of
        None \<Rightarrow> (None, s, [])
      | Some lr \<Rightarrow>
          let weekendDays = filter isWeekend dayNumbers;
              longRunDay = (if length weekendDays > 0 then Math_max weekendDays
                            else Math_max dayNumbers);
              longRunDate = addDays weekStart (dayOffset longRunDay)
          in case reinsertWorkout planId userId longRunDate weekNumber lr 1 1 s of
               (Some e, s1) \<Rightarrow> (Some e, s1, [])
             | (None, s1) \<Rightarrow> (None, s1, [longRunDay]))"

definition placeKeyWorkout ::
  "int \<Rightarrow> int \<Rightarrow> nat \<Rightarrow> day \<Rightarrow> dayval list \<Rightarrow> workout option \<Rightarrow> dayval list \<Rightarrow> db
     \<Rightarrow> error option \<times> db \<times> dayval list" where
  \<comment> \<open>the block \<open>if (keyWorkout && dayNumbers.length > 1) { ... }\<close>\<close>
  "placeKeyWorkout planId userId weekNumber weekStart dayNumbers keyWorkout usedDays s =
     (case keyWorkout of
        None \<Rightarrow> (None, s, usedDays)
      | Some kw \<Rightarrow>
          if length dayNumbers > 1 then
            let availableForKey = filter (\<lambda>d. d \<notin> set usedDays) dayNumbers;
                nonAdjacentDays =
                  filter (\<lambda>d. case usedDays of [] \<Rightarrow> False | longDay # _ \<Rightarrow> notAdjacent d longDay)
                    availableForKey;
                keyDay =
                  (if length nonAdjacentDays > 0
                   then Some (nonAdjacentDays ! (length nonAdjacentDays div 2))
                   else (case availableForKey of [] \<Rightarrow> None | d # _ \<Rightarrow> Some d))
            in case keyDay of
                 None \<Rightarrow> (None, s, usedDays)
               | Some kd \<Rightarrow>
                   (case reinsertWorkout planId userId (addDays weekStart (dayOffset kd))
                           weekNumber kw 1 0 s of
                      (Some e, s1) \<Rightarrow> (Some e, s1, usedDays)
                    | (None, s1) \<Rightarrow> (None, s1, usedDays @ [kd]))
          else (None, s, usedDays))"

definition rescheduleWeek ::
  "int \<Rightarrow> int \<Rightarrow> nat \<Rightarrow> string list \<Rightarrow> db \<Rightarrow> error option \<times> db" where
  "rescheduleWeek planId userId weekNumber newAvailableDays s =
     (case filter (inWeek planId userId weekNumber) (workouts s) of
        [] \<Rightarrow> (None, s)
      | first # rest \<Rightarrow>
          let ws = first # rest;
              longRun = find (\<lambda>w. is_long_run w = 1) ws;
              keyWorkout = find (\<lambda>w. is_key_workout w = 1 \<and> is_long_run w = 0) ws;
              easyRuns = filter (\<lambda>w. is_key_workout w = 0 \<and> is_long_run w = 0) ws;
              weekStart = startOfWeek (date first);
              s1 = deleteWeek planId userId weekNumber s;
              dayNumbers = dayNumbersOf newAvailableDays
          in if length dayNumbers = 0 then (None, s1)
             else
               case placeLongRun planId userId weekNumber weekStart dayNumbers longRun s1 of
                 (Some e, s2, _) \<Rightarrow> (Some e, s2)
               | (None, s2, usedDays) \<Rightarrow>
                   (case placeKeyWorkout planId userId weekNumber weekStart dayNumbers
                           keyWorkout usedDays s2 of
                      (Some e, s3, _) \<Rightarrow> (Some e, s3)
                    | (None, s3, usedDays1) \<Rightarrow>
                        let remainingDays = remainingDaysOf dayNumbers usedDays1;
                            easyToPlace = min (length easyRuns) (length remainingDays)
                        in forEach
                             (\<lambda>i. let day = remainingDays ! i;
                                      easyRun = easyRuns ! i;
                                      easyDate = addDays weekStart (dayOffset day)
                                  in reinsertWorkout planId userId easyDate weekNumber easyRun
                                       0 0)
                             [0 ..< easyToPlace] s3))"

section \<open>Notions used to state the properties\<close>

definition recognizedDays :: "string list \<Rightarrow> nat list" where
  \<comment> \<open>the day numbers of the names that are weekdays, in the order of the names\<close>
  "recognizedDays days = List.map_filter (\<lambda>d. map_of DAY_MAP (toLowerCase d)) days"

definition noInheritedNames :: "string list \<Rightarrow> bool" where
  \<comment> \<open>no name, lowered, is the name of a property of \<open>Object.prototype\<close>\<close>
  "noInheritedNames days = list_all (\<lambda>d. toLowerCase d \<notin> set object_prototype_keys) days"

definition spec_longRunDay :: "nat list \<Rightarrow> nat" where
  \<comment> \<open>the greatest weekend day number if a permitted day is Saturday or Sunday,
      the greatest permitted day number otherwise\<close>
  "spec_longRunDay ns =
     (if filter (\<lambda>n. n = 0 \<or> n = 6) ns \<noteq> [] then Max (set (filter (\<lambda>n. n = 0 \<or> n = 6) ns))
      else Max (set ns))"

definition offsetOf :: "nat \<Rightarrow> nat" where
  \<comment> \<open>the offset of a day number in a week that starts on Monday\<close>
  "offsetOf n = (if n = 0 then 6 else n - 1)"





definition appended :: "(workout \<Rightarrow> bool) \<Rightarrow> db \<Rightarrow> db \<Rightarrow> bool" where
  \<comment> \<open>the workouts table of \<open>t\<close> is that of \<open>s\<close> followed by rows that satisfy
      \<open>Q\<close>\<close>
  "appended Q s t = (\<exists>rows. workouts t = workouts s @ rows \<and> (\<forall>r \<in> set rows. Q r))"

definition laterRow :: "int \<Rightarrow> nat \<Rightarrow> string \<Rightarrow> workout \<Rightarrow> bool" where
  \<comment> \<open>a row that is no long run, and an easy run when the level is beginner\<close>
  "laterRow p k level r =
     (plan_id r = p \<and> week_number r = k \<and> is_long_run r = 0
      \<and> (level = ''beginner'' \<longrightarrow> workout_type r = ''easy''))"

definition longRow :: "int \<Rightarrow> int \<Rightarrow> nat \<Rightarrow> day \<Rightarrow> real \<Rightarrow> workout \<Rightarrow> bool" where
  \<comment> \<open>the row of a generated long run\<close>
  "longRow p u k d m r =
     (plan_id r = p \<and> user_id r = u \<and> week_number r = k \<and> date r = d
      \<and> workout_type r = ''long'' \<and> duration_minutes r = m
      \<and> is_key_workout r = 1 \<and> is_long_run r = 1 \<and> completed r = 0)"

definition newRows :: "db \<Rightarrow> db \<Rightarrow> workout list" where
  \<comment> \<open>the rows of \<open>s'\<close> after those that \<open>s\<close> has\<close>
  "newRows s s' = drop (length (workouts s)) (workouts s')"

definition longRunsOfWeek :: "nat \<Rightarrow> workout list \<Rightarrow> workout list" where
  \<comment> \<open>the rows of a week that carry the long-run flag\<close>
  "longRunsOfWeek k rows = filter (\<lambda>r. week_number r = k \<and> is_long_run r \<noteq> 0) rows"

definition ordinaryNames :: "goal \<Rightarrow> bool" where
  \<comment> \<open>neither the day names, lowered, nor the distance nor the level name a property of
      \<open>Object.prototype\<close>\<close>
  "ordinaryNames goal =
     (noInheritedNames (available_days goal)
      \<and> race_distance goal \<notin> set object_prototype_keys
      \<and> experience_level goal \<notin> set object_prototype_keys)"

definition beginnerRow :: "workout \<Rightarrow> bool" where
  \<comment> \<open>an easy run or a long run\<close>
  "beginnerRow r = (workout_type r = ''easy'' \<or> workout_type r = ''long'')"

definition rowSummary :: "workout \<Rightarrow> nat \<times> string \<times> day \<times> real" where
  \<comment> \<open>week number, type, date and duration of a row\<close>
  "rowSummary r = (week_number r, workout_type r, date r, duration_minutes r)"

definition dayNum :: "dayval \<Rightarrow> nat option" where
  "dayNum d = (case d of Day n \<Rightarrow> Some n | _ \<Rightarrow> None)"




section \<open>The classification rules as the specification words them\<close>

definition spec_completionRate :: "WeeklyStats \<Rightarrow> real" where
  "spec_completionRate stats =
     (if plannedRuns stats = 0 then 0
      else real (completedRuns stats) / real (plannedRuns stats))"

definition spec_classification :: "WeeklyStats \<Rightarrow> adjustment_type \<times> real \<times> int" where
  "spec_classification stats =
     (if averagePain stats \<ge> 5 then (Reduce, 0.7, -1)
      else if spec_completionRate stats < 0.5 then (Reduce, 0.8, 0)
      else if missedKeyWorkouts stats \<ge> 2 then (Reduce, 0.85, 0)
      else if averageEffort stats \<ge> 8 \<and> spec_completionRate stats \<ge> 0.8 then (Maintain, 1.0, 0)
      else if averageEffort stats < 6 \<and> spec_completionRate stats \<ge> 0.9 \<and> averagePain stats < 2
           then (Increase, 1.05, 0)
      else (Maintain, 1.0, 0))"

definition the_list :: "'a option \<Rightarrow> 'a list" where
  \<comment> \<open>a nullable value as a list of at most one element\<close>
  "the_list x = (case x of None \<Rightarrow> [] | Some y \<Rightarrow> [y])"

section \<open>Example states\<close>

text \<open>
  Day 11 is Monday 1970-01-12; the week before it runs from day 4 to day 10.
\<close>

definition example_goal :: goal where
  "example_goal =
     \<lparr> g_id = 1, g_user_id = 1, race_distance = ''10k'', race_date = 81,
       experience_level = ''intermediate'', current_frequency = 3, longest_recent_run = 45,
       available_days = [''tuesday'', ''thursday'', ''saturday'', ''sunday''],
       max_weekday_time = 60, max_weekend_time = 90, is_active = 1 \<rparr>"

definition beginner_goal :: goal where
  \<comment> \<open>a beginner's 5k goal with Monday and Wednesday permitted\<close>
  "beginner_goal =
     \<lparr> g_id = 2, g_user_id = 1, race_distance = ''5k'', race_date = 32,
       experience_level = ''beginner'', current_frequency = 3, longest_recent_run = 30,
       available_days = [''Monday'', ''Wednesday''],
       max_weekday_time = 60, max_weekend_time = 90, is_active = 1 \<rparr>"

definition example_plan :: training_plan where
  "example_plan = \<lparr> tp_id = 1, goal_id = 1, tp_user_id = 1, start_date = 4, end_date = 81 \<rparr>"

definition example_easy :: "int \<Rightarrow> day \<Rightarrow> nat \<Rightarrow> real \<Rightarrow> int \<Rightarrow> workout" where
  "example_easy wid d wk minutes done =
     \<lparr> w_id = wid, plan_id = 1, user_id = 1, date = d, week_number = wk,
       workout_type = ''easy'', title = ''Easy Run'', description = ''Run at a comfortable pace.'',
       duration_minutes = minutes, intensity = ''low'',
       tired_alternative = ''Take a complete rest day.'',
       is_key_workout = 0, is_long_run = 0, completed = done \<rparr>"

definition example_long :: "int \<Rightarrow> day \<Rightarrow> nat \<Rightarrow> real \<Rightarrow> workout" where
  "example_long wid d wk minutes =
     \<lparr> w_id = wid, plan_id = 1, user_id = 1, date = d, week_number = wk,
       workout_type = ''long'', title = ''Long Run'', description = ''Your weekly long run.'',
       duration_minutes = minutes, intensity = ''low'',
       tired_alternative = ''Reduce duration by 20-30%.'',
       is_key_workout = 1, is_long_run = 1, completed = 0 \<rparr>"

definition example_tempo :: "int \<Rightarrow> day \<Rightarrow> nat \<Rightarrow> real \<Rightarrow> workout" where
  "example_tempo wid d wk minutes =
     \<lparr> w_id = wid, plan_id = 1, user_id = 1, date = d, week_number = wk,
       workout_type = ''tempo'', title = ''Tempo Run'', description = ''Comfortably hard.'',
       duration_minutes = minutes, intensity = ''moderate'',
       tired_alternative = ''Convert to an easy run at the same duration.'',
       is_key_workout = 1, is_long_run = 0, completed = 0 \<rparr>"

definition example_log :: "real \<Rightarrow> real \<Rightarrow> run_log" where
  \<comment> \<open>the log that completes workout 1 on day 5\<close>
  "example_log effort pain =
     \<lparr> log_id = 1, log_user_id = 1, log_workout_id = Some 1, log_date = 5, log_completed = 1,
       log_duration_minutes = 30, effort_level = effort, pain_level = Some pain \<rparr>"

definition example_db :: "workout list \<Rightarrow> run_log list \<Rightarrow> db" where
  "example_db ws ls =
     \<lparr> goals = [example_goal], training_plans = [example_plan], workouts = ws,
       run_logs = ls, weekly_adjustments = [],
       seq_training_plans = 1, seq_workouts = 10, seq_weekly_adjustments = 0 \<rparr>"

definition increase_db :: db where
  \<comment> \<open>last week's only workout completed at effort 5 without pain; a 60-minute run ahead\<close>
  "increase_db = example_db [example_easy 1 5 1 30 1, example_easy 2 12 2 60 0] [example_log 5 0]"


definition empty_db :: db where
  "empty_db =
     \<lparr> goals = [], training_plans = [], workouts = [], run_logs = [], weekly_adjustments = [],
       seq_training_plans = 0, seq_workouts = 0, seq_weekly_adjustments = 0 \<rparr>"

definition week_db :: db where
  \<comment> \<open>week 1 (from Monday, day 4): long run on Saturday, tempo on Tuesday, easy runs
      on Monday and Thursday\<close>
  "week_db = example_db
     [example_long 1 9 1 50, example_tempo 2 5 1 30, example_easy 3 4 1 20 0,
      example_easy 4 7 1 25 0] []"


section \<open>Properties of the adjustment engine\<close>

text \<open>
  Claim C6. \<open>getAdjustmentRecommendation\<close> is a function of the statistics alone
  and applies the six rules in the stated order, the first match winning: pain, low
  completion, missed key workouts, hard but manageable, low effort, default. For
  statistics with average pain 6 and 4 of 4 planned runs completed it returns
  \<open>reduce\<close> with multiplier 0.7 and intensity adjustment -1, whatever the other
  fields are.
\<close>

lemma completionRate_eq:
  "(if plannedRuns stats > 0
    then real (completedRuns stats) / real (plannedRuns stats) else 0) =
   spec_completionRate stats"
  by (simp add: spec_completionRate_def)

theorem getAdjustmentRecommendation_rules:
  "(rec_type (getAdjustmentRecommendation stats),
    volumeMultiplier (getAdjustmentRecommendation stats),
    intensityAdjustment (getAdjustmentRecommendation stats)) = spec_classification stats
   \<and> getAdjustmentRecommendation
         \<lparr> totalRuns = tr, completedRuns = 4, plannedRuns = 4, averageEffort = e,
           averagePain = 6, totalMinutes = m, missedKeyWorkouts = k \<rparr> =
       \<lparr> rec_type = Reduce,
         reason = ''Pain levels are elevated. Reducing training to aid recovery.'',
         volumeMultiplier = 0.7, intensityAdjustment = -1 \<rparr>"
proof
  show "(rec_type (getAdjustmentRecommendation stats),
    volumeMultiplier (getAdjustmentRecommendation stats),
    intensityAdjustment (getAdjustmentRecommendation stats)) = spec_classification stats"
    unfolding getAdjustmentRecommendation_def Let_def completionRate_eq spec_classification_def
    by simp
  show "getAdjustmentRecommendation
         \<lparr> totalRuns = tr, completedRuns = 4, plannedRuns = 4, averageEffort = e,
           averagePain = 6, totalMinutes = m, missedKeyWorkouts = k \<rparr> =
       \<lparr> rec_type = Reduce,
         reason = ''Pain levels are elevated. Reducing training to aid recovery.'',
         volumeMultiplier = 0.7, intensityAdjustment = -1 \<rparr>"
    by (simp add: getAdjustmentRecommendation_def)
qed







lemma js_round_mono: "x \<le> y \<Longrightarrow> js_round x \<le> js_round y"
  by (simp add: js_round_def floor_mono)



text \<open>
  Claim C8. \<open>applyWeeklyAdjustment\<close> is not idempotent. With last week's
  statistics classifying as \<open>increase\<close> (multiplier 1.05) and a 60-minute workout
  ahead that is not completed, the first application sets its duration to
  \<open>round (60 * 1.05) = 63\<close>, and a second application, under the same
  classification, sets it to \<open>round (63 * 1.05) = 66\<close>: it works on the adjusted
  duration.
\<close>

theorem applyWeeklyAdjustment_compounds:
  "map duration_minutes (workouts increase_db) = [30, 60]
   \<and> map rec_type (the_list (adjustment (fst (applyWeeklyAdjustment 11 increase_db 1))))
       = [Increase]
   \<and> map volumeMultiplier (the_list (adjustment (fst (applyWeeklyAdjustment 11 increase_db 1))))
       = [1.05]
   \<and> map duration_minutes (workouts (snd (applyWeeklyAdjustment 11 increase_db 1))) = [30, 63]
   \<and> js_round (60 * 1.05) = 63
   \<and> map rec_type (the_list (adjustment (fst (applyWeeklyAdjustment 11
         (snd (applyWeeklyAdjustment 11 increase_db 1)) 1)))) = [Increase]
   \<and> map duration_minutes (workouts (snd (applyWeeklyAdjustment 11
         (snd (applyWeeklyAdjustment 11 increase_db 1)) 1))) = [30, 66]
   \<and> js_round (63 * 1.05) = 66
   \<and> snd (applyWeeklyAdjustment 11 (snd (applyWeeklyAdjustment 11 increase_db 1)) 1)
       \<noteq> snd (applyWeeklyAdjustment 11 increase_db 1)"
proof -
  have d1: "map duration_minutes (workouts (snd (applyWeeklyAdjustment 11 increase_db 1)))
      = [30, 63]"
    by code_simp
  have d2: "map duration_minutes (workouts (snd (applyWeeklyAdjustment 11
         (snd (applyWeeklyAdjustment 11 increase_db 1)) 1))) = [30, 66]"
    by code_simp
  have ne: "snd (applyWeeklyAdjustment 11 (snd (applyWeeklyAdjustment 11 increase_db 1)) 1)
       \<noteq> snd (applyWeeklyAdjustment 11 increase_db 1)"
    using d1 d2 by auto
  have d0: "map duration_minutes (workouts increase_db) = [30, 60]"
    by code_simp
  have t1: "map rec_type (the_list (adjustment (fst (applyWeeklyAdjustment 11 increase_db 1))))
       = [Increase]"
    by code_simp
  have m1: "map volumeMultiplier
       (the_list (adjustment (fst (applyWeeklyAdjustment 11 increase_db 1)))) = [1.05]"
    by code_simp
  have t2: "map rec_type (the_list (adjustment (fst (applyWeeklyAdjustment 11
         (snd (applyWeeklyAdjustment 11 increase_db 1)) 1)))) = [Increase]"
    by code_simp
  have r1: "js_round (60 * 1.05) = 63" by code_simp
  have r2: "js_round (63 * 1.05) = 66" by code_simp
  show ?thesis using d0 t1 m1 d1 r1 t2 d2 r2 ne by (intro conjI)
qed

section \<open>Properties of the volume curve\<close>

declare calculateWeeklyVolume.simps [simp del]

lemma floor_lt_self:
  assumes t: "1 \<le> t"
  shows "Math_floor (real t * 0.85) < t"
proof -
  have a: "real t * 0.85 < real t" using t by simp
  have b: "real_of_int \<lfloor>real t * 0.85\<rfloor> \<le> real t * 0.85" by (rule of_int_floor_le)
  have "real_of_int \<lfloor>real t * 0.85\<rfloor> < real_of_int (int t)" using a b by linarith
  then have "\<lfloor>real t * 0.85\<rfloor> < int t" by (simp only: of_int_less_iff)
  then show ?thesis unfolding Math_floor_def using t by linarith
qed

lemma calculateWeeklyVolume_step:
  assumes w: "1 \<le> weekNumber" and t: "1 \<le> totalWeeks"
    and p: "(if weekNumber > 1
             then calculateWeeklyVolume (weekNumber - 1) totalWeeks c m cf lrr
             else Some (cf * 30)) = Some prev"
  shows "\<exists>b. calculateWeeklyVolume weekNumber totalWeeks c m cf lrr = Some (min b (prev * 1.1))"
proof -
  define B where "B = Math_floor (real totalWeeks * 0.6)"
  define P where "P = Math_floor (real totalWeeks * 0.85)"
  have P: "P < totalWeeks" unfolding P_def by (rule floor_lt_self [OF t])
  have eq: "calculateWeeklyVolume weekNumber totalWeeks c m cf lrr =
     (let buildPhaseEnd = B;
          peakPhaseEnd = P;
          baseVolume =
            (if weekNumber \<le> buildPhaseEnd then
               map_option
                 (\<lambda>progress.
                    let startVolume = max (cf * 30) (lrr * 2)
                    in startVolume
                         + (peakWeeklyMinutes c * 0.7 - startVolume) * progress)
                 (js_div (real weekNumber) (real buildPhaseEnd))
             else if weekNumber \<le> peakPhaseEnd then
               map_option
                 (\<lambda>progress. peakWeeklyMinutes c * (0.7 + 0.3 * progress))
                 (js_div (real weekNumber - real buildPhaseEnd)
                         (real peakPhaseEnd - real buildPhaseEnd))
             else
               let weeksToRace = real totalWeeks - real weekNumber
               in map_option
                    (\<lambda>q. let taperMultiplier = 0.4 + q * 0.4
                         in peakWeeklyMinutes c * taperMultiplier)
                    (js_div weeksToRace (real totalWeeks - real peakPhaseEnd)));
          baseVolume1 = map_option (\<lambda>b. b * m) baseVolume;
          previousWeekVolume =
            (if weekNumber > 1
             then calculateWeeklyVolume (weekNumber - 1) totalWeeks c m cf lrr
             else Some (cf * 30))
      in case (baseVolume1, previousWeekVolume) of
           (Some b, Some p) \<Rightarrow> Some (min b (p * 1.1))
         | _ \<Rightarrow> None)"
    unfolding B_def P_def by (rule calculateWeeklyVolume.simps)
  consider (build) "weekNumber \<le> B" | (peak) "\<not> weekNumber \<le> B" "weekNumber \<le> P"
    | (taper) "\<not> weekNumber \<le> B" "\<not> weekNumber \<le> P"
    by blast
  then show ?thesis
  proof cases
    case build
    then have "real B \<noteq> 0" using w by auto
    then show ?thesis unfolding eq Let_def p using build by (simp add: js_div_def; blast)
  next
    case peak
    then have "real P - real B \<noteq> 0" by auto
    then show ?thesis unfolding eq Let_def p using peak by (simp add: js_div_def; blast)
  next
    case taper
    have "real totalWeeks - real P \<noteq> 0" using P by auto
    then show ?thesis unfolding eq Let_def p using taper by (simp add: js_div_def; blast)
  qed
qed

lemma calculateWeeklyVolume_finite:
  "1 \<le> weekNumber \<Longrightarrow> 1 \<le> totalWeeks \<Longrightarrow>
   \<exists>v. calculateWeeklyVolume weekNumber totalWeeks c m cf lrr = Some v"
proof (induction weekNumber)
  case 0
  then show ?case by simp
next
  case (Suc n)
  show ?case
  proof (cases "n = 0")
    case True
    have "(if Suc n > 1 then calculateWeeklyVolume (Suc n - 1) totalWeeks c m cf lrr
           else Some (cf * 30)) = Some (cf * 30)"
      using True by simp
    from calculateWeeklyVolume_step [OF Suc.prems(1) Suc.prems(2) this]
    show ?thesis by blast
  next
    case False
    then have "1 \<le> n" by simp
    from Suc.IH [OF this Suc.prems(2)] obtain p where
      p: "calculateWeeklyVolume n totalWeeks c m cf lrr = Some p" by blast
    have "(if Suc n > 1 then calculateWeeklyVolume (Suc n - 1) totalWeeks c m cf lrr
           else Some (cf * 30)) = Some p"
      using False p by simp
    from calculateWeeklyVolume_step [OF Suc.prems(1) Suc.prems(2) this]
    show ?thesis by blast
  qed
qed



section \<open>Properties of the rescheduler\<close>

lemma map_of_DAY_MAP_le: "map_of DAY_MAP k = Some n \<Longrightarrow> n \<le> 6"
  by (auto simp: DAY_MAP_def split: if_splits)

lemma recognizedDays_le: "n \<in> set (recognizedDays days) \<Longrightarrow> n \<le> 6"
  by (auto simp: recognizedDays_def map_filter_def dest: map_of_DAY_MAP_le)

lemma dayNumbersOf_numeric:
  "noInheritedNames days \<Longrightarrow> dayNumbersOf days = map Day (recognizedDays days)"
proof (induction days)
  case Nil
  then show ?case by (simp add: dayNumbersOf_def recognizedDays_def map_filter_simps)
next
  case (Cons d days)
  then have ih: "dayNumbersOf days = map Day (recognizedDays days)"
    and d: "toLowerCase d \<notin> set object_prototype_keys"
    by (simp_all add: noInheritedNames_def)
  show ?case
    using ih d
    by (simp add: dayNumbersOf_def recognizedDays_def map_filter_simps js_get_def
          split: option.splits)
qed

lemma foldl_num_max_Day:
  "foldl num_max (Day a) (map Day ns) = Day (fold max ns a)"
  by (induction ns arbitrary: a) (simp_all add: num_max_def max.commute)

lemma Math_max_Day:
  "ns \<noteq> [] \<Longrightarrow> Math_max (map Day ns) = Day (Max (set ns))"
proof (cases ns)
  case Nil
  then show "ns \<noteq> [] \<Longrightarrow> ?thesis" by simp
next
  case (Cons a as)
  have "Math_max (map Day (a # as)) = Day (fold max as a)"
    by (simp add: foldl_num_max_Day num_max_def)
  also have "fold max as a = Max (set (a # as))"
    by (rule Max.set_eq_fold [symmetric])
  finally show ?thesis using Cons by simp
qed

lemma filter_isWeekend_Day:
  "filter isWeekend (map Day ns) = map Day (filter (\<lambda>n. n = 0 \<or> n = 6) ns)"
  by (induction ns) (simp_all add: isWeekend_def)

lemma workouts_insertRow:
  "workouts (insertRow p u d k ty ttl de m i ta a b s) =
     workouts s @
       [\<lparr> w_id = seq_workouts s + 1, plan_id = p, user_id = u, date = d, week_number = k,
          workout_type = ty, title = ttl, description = de, duration_minutes = m,
          intensity = i, tired_alternative = ta, is_key_workout = a, is_long_run = b,
          completed = 0 \<rparr>]"
  by (simp add: insertRow_def)






lemma in_filterD: "x \<in> set (filter P xs) \<Longrightarrow> x \<in> set xs \<and> P x"
  by simp

lemma find_SomeD: "find P xs = Some x \<Longrightarrow> x \<in> set xs \<and> P x"
  by (auto simp: find_Some_iff)





lemma startOfWeek_same_week:
  assumes "k \<le> (6::nat)"
  shows "startOfWeek (startOfWeek x + int k) = startOfWeek x"
  unfolding startOfWeek_def using assms by presburger

lemma startOfWeek_addWeeks: "startOfWeek (addWeeks (startOfWeek x) n) = addWeeks (startOfWeek x) n"
  unfolding startOfWeek_def addWeeks_def by presburger



lemma dayOffset_Day: "dayOffset (Day n) = Some (offsetOf n)"
  by (simp add: dayOffset_def offsetOf_def)


lemma longRunDay_numeric:
  assumes "ns \<noteq> []"
  shows "(if length (filter isWeekend (map Day ns)) > 0
          then Math_max (filter isWeekend (map Day ns)) else Math_max (map Day ns))
         = Day (spec_longRunDay ns)"
  using assms
  by (simp add: filter_isWeekend_Day Math_max_Day spec_longRunDay_def)

lemma spec_longRunDay_mem:
  assumes "ns \<noteq> []"
  shows "spec_longRunDay ns \<in> set ns"
proof (cases "filter (\<lambda>n. n = 0 \<or> n = 6) ns = []")
  case True
  then show ?thesis using assms by (simp add: spec_longRunDay_def)
next
  case False
  then have ne: "set (filter (\<lambda>n. n = 0 \<or> n = 6) ns) \<noteq> {}"
    by (simp only: set_empty not_False_eq_True)
  have "Max (set (filter (\<lambda>n. n = 0 \<or> n = 6) ns)) \<in> set (filter (\<lambda>n. n = 0 \<or> n = 6) ns)"
    by (rule Max_in [OF finite_set ne])
  then have m: "Max (set (filter (\<lambda>n. n = 0 \<or> n = 6) ns)) \<in> set ns"
    using in_filterD by fast
  have "spec_longRunDay ns = Max (set (filter (\<lambda>n. n = 0 \<or> n = 6) ns))"
    using False by (simp add: spec_longRunDay_def)
  then show ?thesis using m by (simp only:)
qed



















section \<open>No-op results\<close>

lemma concat_map_nonempty:
  "(\<And>x. f x \<noteq> []) \<Longrightarrow> (concat (map f xs) = []) = (xs = [])"
  by (cases xs) auto

lemma plannedWorkoutRows_empty:
  "plannedWorkoutRows s userId a b = [] \<longleftrightarrow>
   filter (\<lambda>w. user_id w = userId \<and> a \<le> date w \<and> date w \<le> b) (workouts s) = []"
  unfolding plannedWorkoutRows_def
  by (rule concat_map_nonempty) (simp split: list.splits)

lemma analyzeWeeklyPerformance_None:
  "analyzeWeeklyPerformance today s userId weekOffset = None \<longleftrightarrow>
   filter (\<lambda>w. user_id w = userId
              \<and> startOfWeek (subWeeks today weekOffset) \<le> date w
              \<and> date w \<le> endOfWeek (subWeeks today weekOffset)) (workouts s) = []"
  unfolding analyzeWeeklyPerformance_def Let_def plannedWorkoutRows_empty [symmetric]
  by simp

text \<open>
  Claim C9. \<open>analyzeWeeklyPerformance\<close> returns null exactly when the user has
  no workout dated in the target week. \<open>applyWeeklyAdjustment\<close> reports
  \<open>applied = false\<close> and leaves the whole store as it is (no duration changed,
  no adjustment row) when the statistics are null, when the recommendation is
  \<open>maintain\<close>, when the user has no active plan, or when the plan has no workout
  dated on or after the start of the current week. \<open>rescheduleWeek\<close> returns
  normally and changes nothing when the week has no workout.
\<close>

theorem no_op_results:
  "(analyzeWeeklyPerformance today s userId weekOffset = None \<longleftrightarrow>
      filter (\<lambda>w. user_id w = userId
                 \<and> startOfWeek (subWeeks today weekOffset) \<le> date w
                 \<and> date w \<le> endOfWeek (subWeeks today weekOffset)) (workouts s) = [])
   \<and> (analyzeWeeklyPerformance today s userId 1 = None
        \<or> (\<exists>stats. analyzeWeeklyPerformance today s userId 1 = Some stats
               \<and> rec_type (getAdjustmentRecommendation stats) = Maintain)
        \<or> activePlan s userId = None
        \<or> (\<exists>plan. activePlan s userId = Some plan
               \<and> currentWorkout s (tp_id plan) (startOfWeek today) = None)
       \<longrightarrow> \<not> applied (fst (applyWeeklyAdjustment today s userId))
           \<and> snd (applyWeeklyAdjustment today s userId) = s)
   \<and> (filter (inWeek planId userId weekNumber) (workouts s) = []
       \<longrightarrow> rescheduleWeek planId userId weekNumber days s = (None, s))"
proof (intro conjI impI)
  show "analyzeWeeklyPerformance today s userId weekOffset = None \<longleftrightarrow>
      filter (\<lambda>w. user_id w = userId
                 \<and> startOfWeek (subWeeks today weekOffset) \<le> date w
                 \<and> date w \<le> endOfWeek (subWeeks today weekOffset)) (workouts s) = []"
    by (rule analyzeWeeklyPerformance_None)
next
  assume h: "analyzeWeeklyPerformance today s userId 1 = None
        \<or> (\<exists>stats. analyzeWeeklyPerformance today s userId 1 = Some stats
               \<and> rec_type (getAdjustmentRecommendation stats) = Maintain)
        \<or> activePlan s userId = None
        \<or> (\<exists>plan. activePlan s userId = Some plan
               \<and> currentWorkout s (tp_id plan) (startOfWeek today) = None)"
  have "\<not> applied (fst (applyWeeklyAdjustment today s userId))
      \<and> snd (applyWeeklyAdjustment today s userId) = s"
    using h unfolding applyWeeklyAdjustment_def Let_def
    by (auto split: option.splits)
  then show "\<not> applied (fst (applyWeeklyAdjustment today s userId))"
    and "snd (applyWeeklyAdjustment today s userId) = s" by simp_all
next
  assume "filter (inWeek planId userId weekNumber) (workouts s) = []"
  then show "rescheduleWeek planId userId weekNumber days s = (None, s)"
    by (simp add: rescheduleWeek_def)
qed

theorem no_op_results_witness:
  "analyzeWeeklyPerformance 11 empty_db 1 1 = None
   \<and> applyWeeklyAdjustment 11 empty_db 1 = (\<lparr> applied = False, adjustment = None \<rparr>, empty_db)
   \<and> activePlan (increase_db\<lparr> goals := [] \<rparr>) 1 = None
   \<and> snd (applyWeeklyAdjustment 11 (increase_db\<lparr> goals := [] \<rparr>) 1) = increase_db\<lparr> goals := [] \<rparr>
   \<and> filter (inWeek 1 1 7) (workouts week_db) = []
   \<and> rescheduleWeek 1 1 7 [''monday'', ''friday''] week_db = (None, week_db)"
proof -
  have a: "analyzeWeeklyPerformance 11 empty_db 1 1 = None" by code_simp
  have p: "activePlan (increase_db\<lparr> goals := [] \<rparr>) 1 = None" by code_simp
  have w: "filter (inWeek 1 1 7) (workouts week_db) = []" by code_simp
  note t1 = no_op_results [of 11 empty_db 1 1 1 7 "[]"]
  note t2 = no_op_results [of 11 "increase_db\<lparr> goals := [] \<rparr>" 1 1 1 7 "[]"]
  note t3 = no_op_results [of 11 week_db 1 1 1 7 "[''monday'', ''friday'']"]
  have r1: "snd (applyWeeklyAdjustment 11 empty_db 1) = empty_db"
    and n1: "\<not> applied (fst (applyWeeklyAdjustment 11 empty_db 1))"
    using t1 a by blast+
  have ad: "adjustment (fst (applyWeeklyAdjustment 11 empty_db 1)) = None"
    by code_simp
  have r1': "applyWeeklyAdjustment 11 empty_db 1
      = (\<lparr> applied = False, adjustment = None \<rparr>, empty_db)"
    using r1 n1 ad by (cases "applyWeeklyAdjustment 11 empty_db 1") auto
  have r2: "snd (applyWeeklyAdjustment 11 (increase_db\<lparr> goals := [] \<rparr>) 1)
      = increase_db\<lparr> goals := [] \<rparr>"
    using t2 p by blast
  have r3: "rescheduleWeek 1 1 7 [''monday'', ''friday''] week_db = (None, week_db)"
    using t3 w by blast
  show ?thesis using a r1' p r2 w r3 by (intro conjI)
qed


section \<open>Properties of the plan generator\<close>

lemma appended_refl: "appended Q s s"
  by (simp add: appended_def)

lemma appended_trans: "appended Q s t \<Longrightarrow> appended Q t u \<Longrightarrow> appended Q s u"
  unfolding appended_def by (metis Un_iff append.assoc set_append)

lemma appended_insertRow:
  assumes "\<And>j. Q \<lparr> w_id = j, plan_id = p, user_id = u, date = d, week_number = k,
          workout_type = ty, title = ttl, description = de, duration_minutes = m,
          intensity = i, tired_alternative = ta, is_key_workout = a, is_long_run = b,
          completed = 0 \<rparr>"
  shows "appended Q s (insertRow p u d k ty ttl de m i ta a b s)"
  unfolding appended_def workouts_insertRow using assms by simp

lemma appended_insertWorkout:
  assumes "\<And>j d t m. Q \<lparr> w_id = j, plan_id = p, user_id = u, date = d, week_number = k,
          workout_type = ty t, title = t_title t, description = t_description t,
          duration_minutes = m, intensity = t_intensity t,
          tired_alternative = tiredAlternative t, is_key_workout = a, is_long_run = b,
          completed = 0 \<rparr>"
  shows "appended Q s (snd (insertWorkout p u dt k ty tpl dur a b s))"
proof (cases dt)
  case None
  then show ?thesis by (simp add: insertWorkout_def appended_refl)
next
  case d: (Some d)
  show ?thesis
  proof (cases tpl)
    case None
    then show ?thesis using d by (simp add: insertWorkout_def appended_refl)
  next
    case t: (Some t)
    show ?thesis
    proof (cases dur)
      case None
      then show ?thesis using d t by (simp add: insertWorkout_def appended_refl)
    next
      case (Some m)
      then show ?thesis using d t assms
        by (simp add: insertWorkout_def appended_insertRow)
    qed
  qed
qed

lemma appended_forEach:
  assumes "\<And>x t. x \<in> set xs \<Longrightarrow> appended Q t (snd (body x t))"
  shows "appended Q s (snd (forEach body xs s))"
  using assms
proof (induction xs arbitrary: s)
  case Nil
  then show ?case by (simp add: appended_refl)
next
  case (Cons x xs)
  have a1: "appended Q s (snd (body x s))" using Cons.prems by simp
  show ?case
  proof (cases "body x s")
    case (Pair e s1)
    show ?thesis
    proof (cases e)
      case None
      have "appended Q s1 (snd (forEach body xs s1))"
        using Cons.IH [of s1] Cons.prems by simp
      then have "appended Q s (snd (forEach body xs s1))"
        using a1 Pair appended_trans by fastforce
      then show ?thesis using Pair None by simp
    next
      case (Some err)
      then show ?thesis using Pair a1 by simp
    qed
  qed
qed

lemma map_t_type_templates:
  "map t_type (getWorkoutTemplates level ph) =
     [''easy'', ''long''] @ (if level \<noteq> ''beginner'' then [''tempo''] else [])
       @ (if level = ''advanced'' \<or> (level = ''intermediate'' \<and> ph = Peak) then [''interval''] else [])"
  by (simp add: getWorkoutTemplates_def Let_def)

lemma templates_types:
  assumes "t \<in> set (getWorkoutTemplates level ph)"
  shows "t_type t = ''easy'' \<or> t_type t = ''long''
     \<or> (level \<noteq> ''beginner'' \<and> (t_type t = ''tempo'' \<or> t_type t = ''interval''))"
proof -
  have "t_type t \<in> set (map t_type (getWorkoutTemplates level ph))"
    using assms by simp
  then show ?thesis
    unfolding map_t_type_templates by (auto split: if_splits)
qed

lemma find_long_template:
  "\<exists>t. find (\<lambda>t. t_type t = ''long'') (getWorkoutTemplates level ph) = Some t"
  by (simp add: getWorkoutTemplates_def Let_def)

lemma find_easy_template:
  "\<exists>t. find (\<lambda>t. t_type t = ''easy'') (getWorkoutTemplates level ph) = Some t"
  by (simp add: getWorkoutTemplates_def Let_def)

lemma dayNum_lookup:
  "Option.bind (map_option (\<lambda>v. case v of Own n \<Rightarrow> Day n | Inherited k \<Rightarrow> Proto k)
                  (js_get DAY_MAP key)) dayNum = map_of DAY_MAP key"
  by (simp add: js_get_def dayNum_def split: option.splits)

lemma map_filter_comp:
  "List.map_filter f (List.map_filter g xs) = List.map_filter (\<lambda>x. Option.bind (g x) f) xs"
  by (induction xs) (auto simp: map_filter_simps split: option.splits)

lemma recognizedDays_dayNum:
  "recognizedDays days = List.map_filter dayNum (dayNumbersOf days)"
  by (simp add: recognizedDays_def dayNumbersOf_def map_filter_comp dayNum_lookup)

lemma num_max_simps:
  "num_max (Day a) (Day b) = Day (max a b)"
  "num_max NaN d = NaN"
  "num_max (Proto x) d = NaN"
  "num_max d NaN = NaN"
  "num_max d (Proto x) = NaN"
  by (simp_all add: num_max_def split: dayval.splits)

lemma foldl_num_max_NaN: "foldl num_max NaN ds = NaN"
  by (induction ds) (simp_all add: num_max_simps)

lemma foldl_num_max_all_days:
  "foldl num_max (Day a) ds = Day L \<Longrightarrow> ds = map Day (List.map_filter dayNum ds)"
proof (induction ds arbitrary: a)
  case Nil
  then show ?case by (simp add: map_filter_simps)
next
  case (Cons d ds)
  show ?case
  proof (cases d)
    case (Day n)
    then have "foldl num_max (Day (max a n)) ds = Day L"
      using Cons.prems by (simp add: num_max_simps)
    from Cons.IH [OF this] show ?thesis using Day by (simp add: map_filter_simps dayNum_def)
  next
    case (Proto x)
    then show ?thesis using Cons.prems by (simp add: num_max_simps foldl_num_max_NaN)
  next
    case NaN
    then show ?thesis using Cons.prems by (simp add: num_max_simps foldl_num_max_NaN)
  qed
qed

lemma Math_max_all_days:
  assumes "Math_max ds = Day L"
  shows "ds = map Day (List.map_filter dayNum ds)"
proof (cases ds)
  case Nil
  then show ?thesis by (simp add: map_filter_simps)
next
  case (Cons d rest)
  show ?thesis
  proof (cases d)
    case (Day n)
    then have "foldl num_max (Day n) rest = Day L"
      using assms Cons by (simp add: num_max_simps)
    from foldl_num_max_all_days [OF this] show ?thesis
      using Cons Day by (simp add: map_filter_simps dayNum_def)
  next
    case (Proto x)
    then show ?thesis using assms Cons by (simp add: num_max_simps foldl_num_max_NaN)
  next
    case NaN
    then show ?thesis using assms Cons by (simp add: num_max_simps foldl_num_max_NaN)
  qed
qed

lemma filter_isWeekend_dayNum:
  "filter isWeekend dn = map Day (filter (\<lambda>n. n = 0 \<or> n = 6) (List.map_filter dayNum dn))"
proof (induction dn)
  case Nil
  then show ?case by (simp add: map_filter_simps)
next
  case (Cons d dn)
  then show ?case by (cases d) (auto simp: map_filter_simps dayNum_def isWeekend_def)
qed

lemma longRunDay_spec:
  assumes "(if length (filter isWeekend dn) > 0 then Math_max (filter isWeekend dn)
            else Math_max dn) = Day L"
    and "dn \<noteq> []"
  shows "L = spec_longRunDay (List.map_filter dayNum dn)"
proof (cases "filter isWeekend dn = []")
  case True
  then have m: "Math_max dn = Day L" using assms(1) by simp
  from Math_max_all_days [OF m] have dn: "dn = map Day (List.map_filter dayNum dn)" .
  then have ne: "List.map_filter dayNum dn \<noteq> []" using assms(2) by auto
  have "Math_max (map Day (List.map_filter dayNum dn)) = Day L" using m dn by simp
  then have L: "L = Max (set (List.map_filter dayNum dn))"
    unfolding Math_max_Day [OF ne] by simp
  have "filter (\<lambda>n. n = 0 \<or> n = 6) (List.map_filter dayNum dn) = []"
    using True unfolding filter_isWeekend_dayNum by simp
  then show ?thesis unfolding spec_longRunDay_def L by simp
next
  case False
  then have m: "Math_max (filter isWeekend dn) = Day L" using assms(1) by simp
  have ne: "filter (\<lambda>n. n = 0 \<or> n = 6) (List.map_filter dayNum dn) \<noteq> []"
    using False unfolding filter_isWeekend_dayNum by simp
  have "L = Max (set (filter (\<lambda>n. n = 0 \<or> n = 6) (List.map_filter dayNum dn)))"
    using m unfolding filter_isWeekend_dayNum Math_max_Day [OF ne] by simp
  then show ?thesis unfolding spec_longRunDay_def using ne by simp
qed

lemma appended_insertKeyWorkout:
  "appended (laterRow p k level) s
     (fst (snd (insertKeyWorkout p u k weekStart templates keyDay level rv wd we s)))"
proof (cases keyDay)
  case None
  then show ?thesis by (simp add: insertKeyWorkout_def appended_refl)
next
  case (Some kd)
  show ?thesis
  proof (cases "level = ''beginner''")
    case True
    then show ?thesis using Some by (simp add: insertKeyWorkout_def appended_refl)
  next
    case False
    have a: "\<And>dt tpl dur. appended (laterRow p k level) s
            (snd (insertWorkout p u dt k t_type tpl dur 1 0 s))"
      by (rule appended_insertWorkout) (simp add: laterRow_def False)
    have b: "\<And>X rv'. fst (snd (case X of (e, s1) \<Rightarrow> (e, s1, rv'))) = snd X"
      by (simp add: case_prod_beta)
    show ?thesis
      unfolding insertKeyWorkout_def Some option.case Let_def using False
      by (simp only: if_True b a not_False_eq_True)
  qed
qed

lemma appended_insertEasyRuns:
  "appended (laterRow p k level) s
     (snd (insertEasyRuns p u k weekStart templates easyDays rv wd we s))"
proof (cases "length easyDays > 0")
  case False
  then show ?thesis by (simp add: insertEasyRuns_def appended_refl)
next
  case True
  have a: "\<And>dt tpl dur t. appended (laterRow p k level) t
            (snd (insertWorkout p u dt k (\<lambda>t. ''easy'') tpl dur 0 0 t))"
    by (rule appended_insertWorkout) (simp add: laterRow_def)
  show ?thesis
    unfolding insertEasyRuns_def Let_def if_P [OF True]
    by (rule appended_forEach) (rule a)
qed

lemma generateWeekWorkouts_rows:
  assumes rec: "recognizedDays days \<noteq> []"
  shows "\<exists>e s'. generateWeekWorkouts p u k weekStart days vol level wd we ph s = (e, s')
     \<and> ((e \<noteq> None \<and> workouts s' = workouts s)
        \<or> (\<exists>v r others. vol = Some v \<and> workouts s' = workouts s @ (r # others)
              \<and> longRow p u k
                   (weekStart + int (offsetOf (spec_longRunDay (recognizedDays days))))
                   (min (js_round (v * 0.35))
                        (if spec_longRunDay (recognizedDays days) = 0
                            \<or> spec_longRunDay (recognizedDays days) = 6 then we else wd)) r
              \<and> (\<forall>x \<in> set others. laterRow p k level x)))"
proof -
  define dn where "dn = dayNumbersOf days"
  define T where "T = getWorkoutTemplates level ph"
  define lrd where "lrd = (if length (filter isWeekend dn) > 0 then Math_max (filter isWeekend dn)
                           else Math_max dn)"
  define kc where "kc = filter (\<lambda>d. d \<noteq> lrd \<and> notAdjacent d lrd) dn"
  define kd where "kd = (if length kc > 0 then Some (kc ! (length kc div 2))
                         else find (\<lambda>d. d \<noteq> lrd) dn)"
  define ldur where "ldur = Math_min (map_option (\<lambda>v. js_round (v * 0.35)) vol)
                              (if isWeekend lrd then we else wd)"
  define ed where "ed = filter (\<lambda>d. d \<noteq> lrd \<and> Some d \<noteq> kd) dn"
  define I1 where "I1 = insertWorkout p u (addDays weekStart (dayOffset lrd)) k (\<lambda>t. ''long'')
                          (find (\<lambda>t. t_type t = ''long'') T) ldur 1 1 s"
  have ne: "dn \<noteq> []"
    using rec unfolding recognizedDays_dayNum dn_def by (auto simp: map_filter_simps)
  have eq: "generateWeekWorkouts p u k weekStart days vol level wd we ph s =
      (case I1 of
         (Some e, s1) \<Rightarrow> (Some e, s1)
       | (None, s1) \<Rightarrow>
           (case insertKeyWorkout p u k weekStart T kd level (js_minus vol ldur) wd we s1 of
              (Some e, s2, _) \<Rightarrow> (Some e, s2)
            | (None, s2, rv1) \<Rightarrow> insertEasyRuns p u k weekStart T ed rv1 wd we s2))"
    unfolding generateWeekWorkouts_def Let_def
    unfolding dn_def [symmetric] T_def [symmetric]
    unfolding lrd_def [symmetric]
    unfolding kc_def [symmetric]
    unfolding kd_def [symmetric] ldur_def [symmetric]
    unfolding ed_def [symmetric] I1_def [symmetric]
    using ne by simp
  obtain lt where lt: "find (\<lambda>t. t_type t = ''long'') T = Some lt"
    unfolding T_def using find_long_template by blast
  show ?thesis
  proof (cases "fst I1")
    case (Some err)
    then have "I1 = (Some err, s)"
      unfolding I1_def insertWorkout_def by (auto split: option.splits)
    then show ?thesis unfolding eq by simp
  next
    case None
    then obtain off v where off: "dayOffset lrd = Some off" and v: "vol = Some v"
      unfolding I1_def insertWorkout_def ldur_def Math_min_def
      by (auto simp: addDays_def split: option.splits)
    from off obtain L where L: "lrd = Day L" and offL: "off = offsetOf L"
      unfolding dayOffset_def offsetOf_def by (auto split: dayval.splits)
    have Ls: "L = spec_longRunDay (recognizedDays days)"
      unfolding recognizedDays_dayNum dn_def [symmetric]
      by (rule longRunDay_spec [OF _ ne]) (use L lrd_def in simp)
    have wk: "isWeekend lrd = (L = 0 \<or> L = 6)" unfolding L isWeekend_def by simp
    define m where "m = min (js_round (v * 0.35)) (if L = 0 \<or> L = 6 then we else wd)"
    define s1 where "s1 = insertRow p u (weekStart + int (offsetOf L)) k ''long'' (t_title lt)
        (t_description lt) m (t_intensity lt) (tiredAlternative lt) 1 1 s"
    have I1: "I1 = (None, s1)"
      unfolding I1_def insertWorkout_def lt ldur_def v off offL wk s1_def m_def
      by (simp add: addDays_def Math_min_def)
    define r where "r = \<lparr> w_id = seq_workouts s + 1, plan_id = p, user_id = u,
        date = weekStart + int (offsetOf L), week_number = k, workout_type = ''long'',
        title = t_title lt, description = t_description lt, duration_minutes = m,
        intensity = t_intensity lt, tired_alternative = tiredAlternative lt,
        is_key_workout = 1, is_long_run = 1, completed = 0 \<rparr>"
    have w1: "workouts s1 = workouts s @ [r]"
      unfolding s1_def r_def by (rule workouts_insertRow)
    have lr: "longRow p u k (weekStart + int (offsetOf L)) m r"
      unfolding longRow_def r_def by simp
    obtain e2 s2 rv1 where K: "insertKeyWorkout p u k weekStart T kd level (js_minus vol ldur)
        wd we s1 = (e2, s2, rv1)"
      by (cases "insertKeyWorkout p u k weekStart T kd level (js_minus vol ldur) wd we s1") auto
    have a2: "appended (laterRow p k level) s1 s2"
      using appended_insertKeyWorkout [of p k level s1 u weekStart T kd "js_minus vol ldur" wd we]
      unfolding K by simp
    obtain e3 s3 where E: "insertEasyRuns p u k weekStart T ed rv1 wd we s2 = (e3, s3)"
      by (cases "insertEasyRuns p u k weekStart T ed rv1 wd we s2") auto
    have a3: "appended (laterRow p k level) s2 s3"
      using appended_insertEasyRuns [of p k level s2 u weekStart T ed rv1 wd we]
      unfolding E by simp
    have a13: "appended (laterRow p k level) s1 s3" by (rule appended_trans [OF a2 a3])
    have res: "generateWeekWorkouts p u k weekStart days vol level wd we ph s =
        (case e2 of Some e \<Rightarrow> (Some e, s2) | None \<Rightarrow> (e3, s3))"
      unfolding eq I1 using K E by (cases e2) simp_all
    have "\<exists>others. workouts (snd (case e2 of Some e \<Rightarrow> (Some e, s2) | None \<Rightarrow> (e3, s3)))
              = workouts s @ (r # others)
          \<and> (\<forall>x \<in> set others. laterRow p k level x)"
      using a2 a13 w1 unfolding appended_def by (cases e2) auto
    then show ?thesis
      unfolding res using v lr unfolding Ls [symmetric] m_def
      by (cases e2) auto
  qed
qed

lemma forEach_None:
  assumes "\<And>x t. x \<in> set xs \<Longrightarrow> fst (body x t) = None"
  shows "fst (forEach body xs s) = None"
  using assms
proof (induction xs arbitrary: s)
  case Nil
  then show ?case by simp
next
  case (Cons x xs)
  have "fst (body x s) = None" using Cons.prems by simp
  then obtain s1 where b: "body x s = (None, s1)" by (cases "body x s") auto
  have "fst (forEach body xs s1) = None" using Cons.IH Cons.prems by simp
  then show ?case using b by simp
qed

lemma insertWorkout_Some:
  "insertWorkout p u (Some d) k ty (Some t) (Some m) a b s =
     (None, insertRow p u d k (ty t) (t_title t) (t_description t) m (t_intensity t)
              (tiredAlternative t) a b s)"
  by (simp add: insertWorkout_def)

lemma insertKeyWorkout_ok:
  assumes "\<And>d. keyDay = Some d \<Longrightarrow> \<exists>l. d = Day l"
    and "T \<noteq> []"
  shows "\<exists>s' y. insertKeyWorkout p u k weekStart T keyDay level (Some x) wd we s
           = (None, s', Some y)"
proof (cases keyDay)
  case None
  then show ?thesis by (simp add: insertKeyWorkout_def)
next
  case (Some d)
  then obtain l where l: "d = Day l" using assms(1) by blast
  have "\<exists>t. (case find (\<lambda>t. t_type t = ''tempo'' \<or> t_type t = ''interval'') T of
                     Some t \<Rightarrow> Some t
                   | None \<Rightarrow> (case T of [] \<Rightarrow> None | t # _ \<Rightarrow> Some t)) = Some t"
  proof (cases "find (\<lambda>t. t_type t = ''tempo'' \<or> t_type t = ''interval'') T")
    case None
    then show ?thesis using assms(2) by (cases T) simp_all
  next
    case (Some a)
    then show ?thesis by simp
  qed
  then obtain t where t: "(case find (\<lambda>t. t_type t = ''tempo'' \<or> t_type t = ''interval'') T of
                     Some t \<Rightarrow> Some t
                   | None \<Rightarrow> (case T of [] \<Rightarrow> None | t # _ \<Rightarrow> Some t)) = Some t"
    by blast
  show ?thesis
    unfolding insertKeyWorkout_def Some option.case Let_def t l
    by (simp add: dayOffset_Day addDays_def Math_min_def insertWorkout_Some js_minus_def)
qed

lemma insertEasyRuns_ok:
  assumes "\<And>d. d \<in> set ed \<Longrightarrow> \<exists>l. d = Day l"
    and "find (\<lambda>t. t_type t = ''easy'') T = Some t"
  shows "fst (insertEasyRuns p u k weekStart T ed (Some x) wd we s) = None"
proof (cases "length ed > 0")
  case False
  then show ?thesis by (simp add: insertEasyRuns_def)
next
  case True
  show ?thesis
    unfolding insertEasyRuns_def Let_def if_P [OF True] assms(2)
  proof (rule forEach_None)
    fix d s1 assume "d \<in> set ed"
    then obtain l where l: "d = Day l" using assms(1) by blast
    show "fst (insertWorkout p u (addDays weekStart (dayOffset d)) k (\<lambda>t. ''easy'') (Some t)
                 (Math_min (map_option (\<lambda>v. js_round (v / real (length ed))) (Some x))
                    (if isWeekend d then we else wd)) 0 0 s1) = None"
      unfolding l by (simp add: dayOffset_Day addDays_def Math_min_def insertWorkout_Some)
  qed
qed

lemma generateWeekWorkouts_ok:
  assumes "noInheritedNames days"
  shows "fst (generateWeekWorkouts p u k weekStart days (Some v) level wd we ph s) = None"
proof -
  define ns where "ns = recognizedDays days"
  define dn where "dn = dayNumbersOf days"
  have num: "dn = map Day ns" unfolding dn_def ns_def by (rule dayNumbersOf_numeric [OF assms])
  show ?thesis
  proof (cases "ns = []")
    case True
    then show ?thesis
      unfolding generateWeekWorkouts_def Let_def dn_def [symmetric] num by simp
  next
    case False
    define T where "T = getWorkoutTemplates level ph"
    define lrd where "lrd = (if length (filter isWeekend dn) > 0
                             then Math_max (filter isWeekend dn) else Math_max dn)"
    define kc where "kc = filter (\<lambda>d. d \<noteq> lrd \<and> notAdjacent d lrd) dn"
    define kd where "kd = (if length kc > 0 then Some (kc ! (length kc div 2))
                           else find (\<lambda>d. d \<noteq> lrd) dn)"
    define ldur where "ldur = Math_min (map_option (\<lambda>v. js_round (v * 0.35)) (Some v))
                                (if isWeekend lrd then we else wd)"
    define ed where "ed = filter (\<lambda>d. d \<noteq> lrd \<and> Some d \<noteq> kd) dn"
    define I1 where "I1 = insertWorkout p u (addDays weekStart (dayOffset lrd)) k (\<lambda>t. ''long'')
                            (find (\<lambda>t. t_type t = ''long'') T) ldur 1 1 s"
    have ne: "dn \<noteq> []" using False num by simp
    have eq: "generateWeekWorkouts p u k weekStart days (Some v) level wd we ph s =
        (case I1 of
           (Some e, s1) \<Rightarrow> (Some e, s1)
         | (None, s1) \<Rightarrow>
             (case insertKeyWorkout p u k weekStart T kd level (js_minus (Some v) ldur) wd we s1 of
                (Some e, s2, _) \<Rightarrow> (Some e, s2)
              | (None, s2, rv1) \<Rightarrow> insertEasyRuns p u k weekStart T ed rv1 wd we s2))"
      unfolding generateWeekWorkouts_def Let_def
      unfolding dn_def [symmetric] T_def [symmetric]
      unfolding lrd_def [symmetric]
      unfolding kc_def [symmetric]
      unfolding kd_def [symmetric] ldur_def [symmetric]
      unfolding ed_def [symmetric] I1_def [symmetric]
      using ne by simp
    have lrd: "lrd = Day (spec_longRunDay ns)"
      unfolding lrd_def num by (rule longRunDay_numeric [OF False])
    obtain lt where lt: "find (\<lambda>t. t_type t = ''long'') T = Some lt"
      unfolding T_def using find_long_template by blast
    obtain et where et: "find (\<lambda>t. t_type t = ''easy'') T = Some et"
      unfolding T_def using find_easy_template by blast
    have Tne: "T \<noteq> []" using lt by auto
    obtain m where ld: "ldur = Some m" unfolding ldur_def by (simp add: Math_min_def)
    obtain s1 where I1: "I1 = (None, s1)"
      unfolding I1_def lrd lt ld by (simp add: dayOffset_Day addDays_def insertWorkout_Some)
    have days: "\<And>d. d \<in> set dn \<Longrightarrow> \<exists>l. d = Day l" unfolding num by auto
    have kdD: "\<And>d. kd = Some d \<Longrightarrow> \<exists>l. d = Day l"
    proof -
      fix d assume k: "kd = Some d"
      have "d \<in> set dn"
      proof (cases "length kc > 0")
        case True
        then have "kc ! (length kc div 2) \<in> set kc" by (intro nth_mem) simp
        then have "kc ! (length kc div 2) \<in> set dn" unfolding kc_def using in_filterD by fast
        then show ?thesis using k True unfolding kd_def by simp
      next
        case False
        then have "find (\<lambda>d. d \<noteq> lrd) dn = Some d" using k unfolding kd_def by simp
        then show ?thesis by (metis (mono_tags, lifting) find_SomeD)
      qed
      then show "\<exists>l. d = Day l" by (rule days)
    qed
    have rv: "js_minus (Some v) ldur = Some (v - m)" unfolding ld by (simp add: js_minus_def)
    from insertKeyWorkout_ok [OF kdD Tne, of kd p u k weekStart level "v - m" wd we s1]
    obtain s2 y where K: "insertKeyWorkout p u k weekStart T kd level (Some (v - m)) wd we s1
        = (None, s2, Some y)" by blast
    have edD: "\<And>d. d \<in> set ed \<Longrightarrow> \<exists>l. d = Day l"
      unfolding ed_def using days in_filterD by fast
    have E: "fst (insertEasyRuns p u k weekStart T ed (Some y) wd we s2) = None"
      by (rule insertEasyRuns_ok [OF edD et])
    show ?thesis unfolding eq I1 rv by (simp add: K E)
  qed
qed

lemma filter_concat_week:
  fixes R :: "nat \<Rightarrow> workout list \<Rightarrow> bool"
  assumes "list_all2 R xs rowss" and "distinct xs" and "k \<in> set xs"
    and "\<And>x rows r. R x rows \<Longrightarrow> r \<in> set rows \<Longrightarrow> week_number r = x"
  shows "\<exists>rows. R k rows \<and> filter (\<lambda>r. week_number r = k) (concat rowss) = rows"
  using assms(1,2,3)
proof (induction xs rowss rule: list_all2_induct)
  case Nil
  then show ?case by simp
next
  case (Cons x xs rows rowss)
  have wk: "\<And>r. r \<in> set rows \<Longrightarrow> week_number r = x" using assms(4) Cons.hyps(1) by blast
  show ?case
  proof (cases "x = k")
    case True
    then have "k \<notin> set xs" using Cons.prems(1) by simp
    have "\<And>r. r \<in> set (concat rowss) \<Longrightarrow> week_number r \<noteq> k"
    proof -
      fix r assume "r \<in> set (concat rowss)"
      then obtain l where l: "l \<in> set rowss" "r \<in> set l" by auto
      then obtain i where i: "i < length rowss" "rowss ! i = l" by (metis in_set_conv_nth)
      have "R (xs ! i) l" using Cons.hyps(2) i by (auto simp: list_all2_conv_all_nth)
      then have "week_number r = xs ! i" using assms(4) l(2) by blast
      moreover have "xs ! i \<in> set xs" using i(1) Cons.hyps(2)
        by (auto simp: list_all2_conv_all_nth)
      ultimately show "week_number r \<noteq> k" using \<open>k \<notin> set xs\<close> by auto
    qed
    then have "filter (\<lambda>r. week_number r = k) (concat rowss) = []"
      by (simp add: filter_empty_conv)
    moreover have "filter (\<lambda>r. week_number r = k) rows = rows"
      using wk True by (simp add: filter_id_conv)
    ultimately show ?thesis using Cons.hyps(1) True by auto
  next
    case False
    then have "k \<in> set xs" using Cons.prems(2) by simp
    moreover have "distinct xs" using Cons.prems(1) by simp
    ultimately obtain rs where rs: "R k rs"
      "filter (\<lambda>r. week_number r = k) (concat rowss) = rs"
      using Cons.IH by blast
    have "filter (\<lambda>r. week_number r = k) rows = []"
      using wk False by (simp add: filter_empty_conv)
    then show ?thesis using rs by auto
  qed
qed

lemma monday_mod: "(startOfWeek x + 3) mod 7 = 0"
proof -
  have "startOfWeek x + 3 = (x + 3) - (x + 3) mod 7" by (simp add: startOfWeek_def)
  also have "\<dots> = 7 * ((x + 3) div 7)" by (simp add: minus_mod_eq_mult_div)
  finally show ?thesis by simp
qed

lemma week_shift_mod:
  assumes "(M + 3) mod 7 = (0::int)"
  shows "(M + 7 * n + k + 3) mod 7 = k mod 7"
  using assms by presburger

lemma startOfWeek_addWeeks_offset:
  assumes "o6 \<le> (6::nat)"
  shows "startOfWeek (addWeeks (startOfWeek x) n + int o6) = addWeeks (startOfWeek x) n"
proof -
  have "(startOfWeek x + 7 * int n + int o6 + 3) mod 7 = int o6 mod 7"
    by (rule week_shift_mod [OF monday_mod])
  also have "\<dots> = int o6" using assms by simp
  finally show ?thesis
    unfolding addWeeks_def startOfWeek_def [of "startOfWeek x + 7 * int n + int o6"] by simp
qed

lemma getDay_addWeeks_offset:
  assumes "l \<le> 6"
  shows "getDay (addWeeks (startOfWeek x) n + int (offsetOf l)) = l"
proof -
  have "(startOfWeek x + 7 * int n + (int (offsetOf l) + 1) + 3) mod 7
          = (int (offsetOf l) + 1) mod 7"
    by (rule week_shift_mod [OF monday_mod])
  also have "\<dots> = int l" using assms by (cases "l = 0") (simp_all add: offsetOf_def)
  finally have "(addWeeks (startOfWeek x) n + int (offsetOf l) + 4) mod 7 = int l"
    by (simp add: addWeeks_def add.assoc)
  then show ?thesis by (simp add: getDay_def)
qed

lemma offsetOf_le: "l \<le> 6 \<Longrightarrow> offsetOf l \<le> 6"
  unfolding offsetOf_def by auto

lemma workouts_insertPlan: "workouts (insertPlan g u a b s) = workouts s"
  by (simp add: insertPlan_def)

lemma js_get_Own:
  "key \<notin> set object_prototype_keys \<Longrightarrow> js_get table key = Some v \<Longrightarrow> \<exists>x. v = Own x"
  by (auto simp: js_get_def split: option.splits)

lemma selectRaceConfig_Own:
  "d \<notin> set object_prototype_keys \<Longrightarrow> \<exists>c. selectRaceConfig d = Own c"
  unfolding selectRaceConfig_def
  by (cases "js_get RACE_CONFIGS d") (auto dest: js_get_Own)

lemma selectExperienceMultiplier_Own:
  "l \<notin> set object_prototype_keys \<Longrightarrow> \<exists>m. selectExperienceMultiplier l = Own m"
  unfolding selectExperienceMultiplier_def
  by (cases "js_get EXPERIENCE_MULTIPLIERS l") (auto dest: js_get_Own)

lemma weeklyVolumeFor_finite:
  assumes "d \<notin> set object_prototype_keys" and "l \<notin> set object_prototype_keys"
    and "1 \<le> week" and "1 \<le> tw"
  shows "\<exists>v. weeklyVolumeFor (selectRaceConfig d) (selectExperienceMultiplier l) week tw cf lr
            = Some v"
proof -
  obtain c where c: "selectRaceConfig d = Own c" using selectRaceConfig_Own [OF assms(1)] by blast
  obtain m where m: "selectExperienceMultiplier l = Own m"
    using selectExperienceMultiplier_Own [OF assms(2)] by blast
  show ?thesis unfolding c m weeklyVolumeFor_def
    using calculateWeeklyVolume_finite [OF assms(3,4), of c m cf lr] by simp
qed

lemma generateTrainingPlan_unfold:
  "generateTrainingPlan today weeksToRace goal s =
     (case forEach
             (\<lambda>week. generateWeekWorkouts (seq_training_plans s + 1) (g_user_id goal) week
                 (addWeeks (startOfWeek today) (week - 1)) (available_days goal)
                 (weeklyVolumeFor (selectRaceConfig (race_distance goal))
                    (selectExperienceMultiplier (experience_level goal)) week
                    (nat (max 1 weeksToRace)) (current_frequency goal) (longest_recent_run goal))
                 (experience_level goal) (max_weekday_time goal) (max_weekend_time goal)
                 (weekPhase week (nat (max 1 weeksToRace))))
             [1 ..< Suc (nat (max 1 weeksToRace))]
             (insertPlan (g_id goal) (g_user_id goal) today (race_date goal) s) of
        (Some e, s2) \<Rightarrow> (Inl e, s2)
      | (None, s2) \<Rightarrow> (Inr (seq_training_plans s + 1), s2))"
  unfolding generateTrainingPlan_def Let_def by (rule refl)

lemma generateTrainingPlan_returns:
  assumes "ordinaryNames goal"
  shows "\<exists>s'. generateTrainingPlan today weeksToRace goal s = (Inr (seq_training_plans s + 1), s')"
proof -
  let ?tw = "nat (max 1 weeksToRace)"
  let ?body = "\<lambda>week. generateWeekWorkouts (seq_training_plans s + 1) (g_user_id goal) week
                 (addWeeks (startOfWeek today) (week - 1)) (available_days goal)
                 (weeklyVolumeFor (selectRaceConfig (race_distance goal))
                    (selectExperienceMultiplier (experience_level goal)) week
                    ?tw (current_frequency goal) (longest_recent_run goal))
                 (experience_level goal) (max_weekday_time goal) (max_weekend_time goal)
                 (weekPhase week ?tw)"
  have n: "noInheritedNames (available_days goal)"
    and d: "race_distance goal \<notin> set object_prototype_keys"
    and l: "experience_level goal \<notin> set object_prototype_keys"
    using assms by (simp_all add: ordinaryNames_def)
  have tw: "1 \<le> ?tw" by simp
  have "\<And>x t. x \<in> set [1 ..< Suc ?tw] \<Longrightarrow> fst (?body x t) = None"
  proof -
    fix x t assume "x \<in> set [1 ..< Suc ?tw]"
    then have x: "1 \<le> x" by (simp only: set_upt atLeastLessThan_iff)
    obtain v where v: "weeklyVolumeFor (selectRaceConfig (race_distance goal))
                    (selectExperienceMultiplier (experience_level goal)) x
                    ?tw (current_frequency goal) (longest_recent_run goal) = Some v"
      using weeklyVolumeFor_finite [OF d l x tw] by blast
    show "fst (?body x t) = None" unfolding v by (rule generateWeekWorkouts_ok [OF n])
  qed
  then have f: "fst (forEach ?body [1 ..< Suc ?tw]
               (insertPlan (g_id goal) (g_user_id goal) today (race_date goal) s)) = None"
    by (rule forEach_None)
  define F where "F = forEach ?body [1 ..< Suc ?tw]
               (insertPlan (g_id goal) (g_user_id goal) today (race_date goal) s)"
  have "fst F = None" unfolding F_def by (rule f)
  then have F: "F = (None, snd F)" by (cases F) simp
  have "generateTrainingPlan today weeksToRace goal s =
          (case F of (Some e, s2) \<Rightarrow> (Inl e, s2)
                   | (None, s2) \<Rightarrow> (Inr (seq_training_plans s + 1), s2))"
    unfolding F_def by (rule generateTrainingPlan_unfold)
  also have "\<dots> = (Inr (seq_training_plans s + 1), snd F)"
    by (subst F) (simp only: prod.case option.case)
  finally show ?thesis by (rule exI)
qed

lemma forEach_rows_take:
  assumes "forEach body xs s = (e, s')"
    and "\<And>x t e t'. x \<in> set xs \<Longrightarrow> body x t = (e, t') \<Longrightarrow>
           (e \<noteq> None \<and> workouts t' = workouts t)
           \<or> (\<exists>rows. workouts t' = workouts t @ rows \<and> R x rows)"
  shows "\<exists>n rowss. workouts s' = workouts s @ concat rowss \<and> list_all2 R (take n xs) rowss
           \<and> (e = None \<longrightarrow> take n xs = xs)"
  using assms
proof (induction xs arbitrary: s)
  case Nil
  then have "workouts s' = workouts s @ concat [] \<and> list_all2 R (take 0 []) []
           \<and> (e = None \<longrightarrow> take 0 [] = ([] :: 'a list))" by simp
  then show ?case by blast
next
  case (Cons x xs)
  obtain e1 t where b: "body x s = (e1, t)" by (cases "body x s") auto
  from Cons.prems(2) [of x s e1 t] b
  have d: "(e1 \<noteq> None \<and> workouts t = workouts s)
           \<or> (\<exists>rows. workouts t = workouts s @ rows \<and> R x rows)" by simp
  show ?case
  proof (cases e1)
    case (Some err)
    then have r: "e = Some err" "s' = t" using Cons.prems(1) b by simp_all
    from d show ?thesis
    proof
      assume "e1 \<noteq> None \<and> workouts t = workouts s"
      then have "workouts s' = workouts s @ concat [] \<and> list_all2 R (take 0 (x # xs)) []
           \<and> (e = None \<longrightarrow> take 0 (x # xs) = x # xs)" using r by simp
      then show ?thesis by blast
    next
      assume "\<exists>rows. workouts t = workouts s @ rows \<and> R x rows"
      then obtain rows where "workouts t = workouts s @ rows" "R x rows" by blast
      then have "workouts s' = workouts s @ concat [rows]
           \<and> list_all2 R (take 1 (x # xs)) [rows]
           \<and> (e = None \<longrightarrow> take 1 (x # xs) = x # xs)" using r by simp
      then show ?thesis by blast
    qed
  next
    case None
    then have f: "forEach body xs t = (e, s')" using Cons.prems(1) b by simp
    from d None obtain rows where rows: "workouts t = workouts s @ rows" "R x rows" by blast
    have "\<exists>n rowss. workouts s' = workouts t @ concat rowss \<and> list_all2 R (take n xs) rowss
           \<and> (e = None \<longrightarrow> take n xs = xs)"
    proof (rule Cons.IH [OF f])
      fix y u e' u'
      assume "y \<in> set xs" "body y u = (e', u')"
      then show "(e' \<noteq> None \<and> workouts u' = workouts u)
           \<or> (\<exists>rows. workouts u' = workouts u @ rows \<and> R y rows)"
        using Cons.prems(2) [of y u e' u'] by simp
    qed
    then obtain n rowss where n: "workouts s' = workouts t @ concat rowss"
        "list_all2 R (take n xs) rowss" "e = None \<longrightarrow> take n xs = xs" by blast
    have "workouts s' = workouts s @ concat (rows # rowss)
           \<and> list_all2 R (take (Suc n) (x # xs)) (rows # rowss)
           \<and> (e = None \<longrightarrow> take (Suc n) (x # xs) = x # xs)"
      using n rows by simp
    then show ?thesis by blast
  qed
qed

lemma concat_week_mem:
  fixes R :: "nat \<Rightarrow> workout list \<Rightarrow> bool"
  assumes "list_all2 R xs rowss" and "r \<in> set (concat rowss)"
    and "\<And>x rows r. R x rows \<Longrightarrow> r \<in> set rows \<Longrightarrow> week_number r = x"
  shows "week_number r \<in> set xs"
proof -
  from assms(2) obtain l where l: "l \<in> set rowss" "r \<in> set l" by auto
  then obtain i where i: "i < length rowss" "rowss ! i = l" by (metis in_set_conv_nth)
  have len: "length xs = length rowss" using assms(1) by (rule list_all2_lengthD)
  have "R (xs ! i) l" using assms(1) i by (auto simp: list_all2_conv_all_nth)
  then have "week_number r = xs ! i" using assms(3) l(2) by blast
  moreover have "xs ! i \<in> set xs" using i(1) len by simp
  ultimately show ?thesis by simp
qed

lemma generateTrainingPlan_weeks:
  assumes rec: "recognizedDays (available_days goal) \<noteq> []"
    and run: "generateTrainingPlan today weeksToRace goal s = (res, s')"
    and wk: "(\<exists>r \<in> set (newRows s s'). week_number r = week)
             \<or> ((\<exists>p. res = Inr p) \<and> 1 \<le> week \<and> week \<le> nat (max 1 weeksToRace))"
  shows "\<exists>v r others.
           weeklyVolumeFor (selectRaceConfig (race_distance goal))
              (selectExperienceMultiplier (experience_level goal)) week
              (nat (max 1 weeksToRace)) (current_frequency goal) (longest_recent_run goal) = Some v
         \<and> filter (\<lambda>r. week_number r = week) (newRows s s') = r # others
         \<and> longRow (seq_training_plans s + 1) (g_user_id goal) week
              (addWeeks (startOfWeek today) (week - 1)
                 + int (offsetOf (spec_longRunDay (recognizedDays (available_days goal)))))
              (min (js_round (v * 0.35))
                 (if spec_longRunDay (recognizedDays (available_days goal)) = 0
                     \<or> spec_longRunDay (recognizedDays (available_days goal)) = 6
                  then max_weekend_time goal else max_weekday_time goal)) r
         \<and> (\<forall>x \<in> set others. laterRow (seq_training_plans s + 1) week (experience_level goal) x)"
proof -
  let ?tw = "nat (max 1 weeksToRace)"
  let ?p = "seq_training_plans s + 1"
  let ?L = "spec_longRunDay (recognizedDays (available_days goal))"
  let ?vol = "\<lambda>week. weeklyVolumeFor (selectRaceConfig (race_distance goal))
                    (selectExperienceMultiplier (experience_level goal)) week
                    ?tw (current_frequency goal) (longest_recent_run goal)"
  let ?body = "\<lambda>week. generateWeekWorkouts ?p (g_user_id goal) week
                 (addWeeks (startOfWeek today) (week - 1)) (available_days goal)
                 (?vol week)
                 (experience_level goal) (max_weekday_time goal) (max_weekend_time goal)
                 (weekPhase week ?tw)"
  define R :: "nat \<Rightarrow> workout list \<Rightarrow> bool" where
    "R = (\<lambda>k rows. \<exists>v r others. ?vol k = Some v \<and> rows = r # others
           \<and> longRow ?p (g_user_id goal) k
                (addWeeks (startOfWeek today) (k - 1) + int (offsetOf ?L))
                (min (js_round (v * 0.35))
                   (if ?L = 0 \<or> ?L = 6 then max_weekend_time goal else max_weekday_time goal)) r
           \<and> (\<forall>x \<in> set others. laterRow ?p k (experience_level goal) x))"
  define s1 where "s1 = insertPlan (g_id goal) (g_user_id goal) today (race_date goal) s"
  define F where "F = forEach ?body [1 ..< Suc ?tw] s1"
  have g: "generateTrainingPlan today weeksToRace goal s =
          (case F of (Some e, s2) \<Rightarrow> (Inl e, s2)
                   | (None, s2) \<Rightarrow> (Inr (seq_training_plans s + 1), s2))"
    unfolding F_def s1_def by (rule generateTrainingPlan_unfold)
  obtain e where F: "F = (e, s')" and e: "(\<exists>p. res = Inr p) \<longrightarrow> e = None"
  proof (cases F)
    case (Pair e t)
    show ?thesis
    proof (cases e)
      case None
      then show ?thesis using g run Pair that by simp
    next
      case (Some a)
      then show ?thesis using g run Pair that by auto
    qed
  qed
  have step: "\<And>x t e t'. x \<in> set [1 ..< Suc ?tw] \<Longrightarrow> ?body x t = (e, t') \<Longrightarrow>
           (e \<noteq> None \<and> workouts t' = workouts t)
           \<or> (\<exists>rows. workouts t' = workouts t @ rows \<and> R x rows)"
  proof -
    fix x t e t'
    assume b: "?body x t = (e, t')"
    from generateWeekWorkouts_rows [OF rec, of ?p "g_user_id goal" x
        "addWeeks (startOfWeek today) (x - 1)" "?vol x" "experience_level goal"
        "max_weekday_time goal" "max_weekend_time goal" "weekPhase x ?tw" t]
    have "(e \<noteq> None \<and> workouts t' = workouts t)
        \<or> (\<exists>v r others. ?vol x = Some v \<and> workouts t' = workouts t @ (r # others)
              \<and> longRow ?p (g_user_id goal) x
                   (addWeeks (startOfWeek today) (x - 1) + int (offsetOf ?L))
                   (min (js_round (v * 0.35))
                      (if ?L = 0 \<or> ?L = 6 then max_weekend_time goal else max_weekday_time goal)) r
              \<and> (\<forall>y \<in> set others. laterRow ?p x (experience_level goal) y))"
      unfolding b by (simp only: prod.inject) blast
    then show "(e \<noteq> None \<and> workouts t' = workouts t)
           \<or> (\<exists>rows. workouts t' = workouts t @ rows \<and> R x rows)"
      unfolding R_def by blast
  qed
  from forEach_rows_take [of ?body "[1 ..< Suc ?tw]" s1 e s' R, OF F [unfolded F_def] step]
  obtain n rowss where rowss: "workouts s' = workouts s1 @ concat rowss"
      "list_all2 R (take n [1 ..< Suc ?tw]) rowss"
      "e = None \<longrightarrow> take n [1 ..< Suc ?tw] = [1 ..< Suc ?tw]" by blast
  have w1: "workouts s1 = workouts s" unfolding s1_def by (rule workouts_insertPlan)
  have new: "newRows s s' = concat rowss" unfolding newRows_def rowss(1) w1 by simp
  have Rweek: "\<And>x rows r. R x rows \<Longrightarrow> r \<in> set rows \<Longrightarrow> week_number r = x"
    unfolding R_def longRow_def laterRow_def by auto
  have mem: "week \<in> set (take n [1 ..< Suc ?tw])"
    using wk
  proof
    assume "\<exists>r \<in> set (newRows s s'). week_number r = week"
    then obtain r where r: "r \<in> set (concat rowss)" "week_number r = week"
      unfolding new by blast
    have "week_number r \<in> set (take n [1 ..< Suc ?tw])"
    proof (rule concat_week_mem [OF rowss(2) r(1)])
      fix x rows r
      assume "R x rows" "r \<in> set rows"
      then show "week_number r = x" by (rule Rweek)
    qed
    then show ?thesis unfolding r(2) .
  next
    assume a: "(\<exists>p. res = Inr p) \<and> 1 \<le> week \<and> week \<le> ?tw"
    then have "take n [1 ..< Suc ?tw] = [1 ..< Suc ?tw]" using e rowss(3) by blast
    moreover have "week \<in> set [1 ..< Suc ?tw]"
      unfolding set_upt atLeastLessThan_iff less_Suc_eq_le using a by blast
    ultimately show ?thesis by simp
  qed
  have dist: "distinct (take n [1 ..< Suc ?tw])" by (rule distinct_take [OF distinct_upt])
  have "\<exists>rows. R week rows \<and> filter (\<lambda>r. week_number r = week) (concat rowss) = rows"
  proof (rule filter_concat_week [OF rowss(2) dist mem])
    fix x rows r
    assume "R x rows" "r \<in> set rows"
    then show "week_number r = x" by (rule Rweek)
  qed
  then obtain rows where rows: "R week rows"
      "filter (\<lambda>r. week_number r = week) (concat rowss) = rows" by blast
  show ?thesis using rows unfolding new R_def by blast
qed

text \<open>
  C2. Take a goal with at least one recognized permitted day and any run of
  \<open>generateTrainingPlan\<close>. Every week of which the run has created a workout, and
  every week from 1 to the number of weeks when the run returns a plan, has exactly one
  new workout with the long-run flag: a workout of type long of the new plan, on the
  greatest weekend day number if a permitted day is Saturday or Sunday and on the greatest
  permitted day number otherwise, in the calendar week of that week number, and of duration
  min(round(0.35 * weekly volume), ceiling of its day). With ordinary names the run
  returns the plan.
\<close>

theorem generateTrainingPlan_long_runs:
  assumes "recognizedDays (available_days goal) \<noteq> []"
    and "generateTrainingPlan today weeksToRace goal s = (res, s')"
  shows "(\<forall>week.
            (\<exists>r \<in> set (newRows s s'). week_number r = week)
            \<or> ((\<exists>p. res = Inr p) \<and> 1 \<le> week \<and> week \<le> nat (max 1 weeksToRace)) \<longrightarrow>
            (\<exists>v r. weeklyVolumeFor (selectRaceConfig (race_distance goal))
                      (selectExperienceMultiplier (experience_level goal)) week
                      (nat (max 1 weeksToRace)) (current_frequency goal)
                      (longest_recent_run goal) = Some v
                 \<and> longRunsOfWeek week (newRows s s') = [r]
                 \<and> plan_id r = seq_training_plans s + 1 \<and> workout_type r = ''long''
                 \<and> getDay (date r) = spec_longRunDay (recognizedDays (available_days goal))
                 \<and> startOfWeek (date r) = addWeeks (startOfWeek today) (week - 1)
                 \<and> duration_minutes r =
                     min (js_round (v * 0.35))
                       (if getDay (date r) = 0 \<or> getDay (date r) = 6
                        then max_weekend_time goal else max_weekday_time goal)))
       \<and> (ordinaryNames goal \<longrightarrow> res = Inr (seq_training_plans s + 1))"
proof (intro conjI allI impI)
  assume "ordinaryNames goal"
  then obtain t where "generateTrainingPlan today weeksToRace goal s
                    = (Inr (seq_training_plans s + 1), t)"
    using generateTrainingPlan_returns by blast
  then show "res = Inr (seq_training_plans s + 1)" using assms(2) by simp
next
  fix week
  assume wk: "(\<exists>r \<in> set (newRows s s'). week_number r = week)
            \<or> ((\<exists>p. res = Inr p) \<and> 1 \<le> week \<and> week \<le> nat (max 1 weeksToRace))"
  let ?L = "spec_longRunDay (recognizedDays (available_days goal))"
  let ?M = "addWeeks (startOfWeek today) (week - 1)"
  have L6: "?L \<le> 6"
    using spec_longRunDay_mem [OF assms(1)] by (rule recognizedDays_le)
  from generateTrainingPlan_weeks [OF assms wk]
  obtain v r others where
    v: "weeklyVolumeFor (selectRaceConfig (race_distance goal))
              (selectExperienceMultiplier (experience_level goal)) week
              (nat (max 1 weeksToRace)) (current_frequency goal) (longest_recent_run goal) = Some v"
    and f: "filter (\<lambda>r. week_number r = week) (newRows s s') = r # others"
    and r: "longRow (seq_training_plans s + 1) (g_user_id goal) week (?M + int (offsetOf ?L))
              (min (js_round (v * 0.35))
                 (if ?L = 0 \<or> ?L = 6 then max_weekend_time goal else max_weekday_time goal)) r"
    and o: "\<forall>x \<in> set others. laterRow (seq_training_plans s + 1) week (experience_level goal) x"
    by blast
  have d: "date r = ?M + int (offsetOf ?L)" using r by (simp add: longRow_def)
  have gd: "getDay (date r) = ?L" unfolding d by (rule getDay_addWeeks_offset [OF L6])
  have sw: "startOfWeek (date r) = ?M"
    unfolding d by (rule startOfWeek_addWeeks_offset [OF offsetOf_le [OF L6]])
  have "longRunsOfWeek week (newRows s s')
          = filter (\<lambda>r. is_long_run r \<noteq> 0) (filter (\<lambda>r. week_number r = week) (newRows s s'))"
    unfolding longRunsOfWeek_def filter_filter by (rule filter_cong) auto
  also have "\<dots> = filter (\<lambda>r. is_long_run r \<noteq> 0) (r # others)" unfolding f by (rule refl)
  also have "\<dots> = r # filter (\<lambda>r. is_long_run r \<noteq> 0) others"
    using r by (simp add: longRow_def)
  also have "filter (\<lambda>r. is_long_run r \<noteq> 0) others = []"
    using o by (simp add: filter_empty_conv laterRow_def)
  finally have one: "longRunsOfWeek week (newRows s s') = [r]" .
  have dur: "duration_minutes r =
                     min (js_round (v * 0.35))
                       (if getDay (date r) = 0 \<or> getDay (date r) = 6
                        then max_weekend_time goal else max_weekday_time goal)"
    unfolding gd using r by (simp add: longRow_def)
  have pr: "plan_id r = seq_training_plans s + 1" and ty: "workout_type r = ''long''"
    using r by (simp_all add: longRow_def)
  show "\<exists>v r. weeklyVolumeFor (selectRaceConfig (race_distance goal))
                      (selectExperienceMultiplier (experience_level goal)) week
                      (nat (max 1 weeksToRace)) (current_frequency goal)
                      (longest_recent_run goal) = Some v
                 \<and> longRunsOfWeek week (newRows s s') = [r]
                 \<and> plan_id r = seq_training_plans s + 1 \<and> workout_type r = ''long''
                 \<and> getDay (date r) = spec_longRunDay (recognizedDays (available_days goal))
                 \<and> startOfWeek (date r) = addWeeks (startOfWeek today) (week - 1)
                 \<and> duration_minutes r =
                     min (js_round (v * 0.35))
                       (if getDay (date r) = 0 \<or> getDay (date r) = 6
                        then max_weekend_time goal else max_weekday_time goal)"
    using v one pr ty gd sw dur by blast
qed

theorem generateTrainingPlan_long_runs_witness:
  "recognizedDays (available_days example_goal) \<noteq> []
   \<and> ordinaryNames example_goal
   \<and> fst (generateTrainingPlan 11 3 example_goal empty_db) = Inr 1
   \<and> (1::nat) \<le> 2 \<and> (2::nat) \<le> nat (max 1 3)
   \<and> spec_longRunDay (recognizedDays (available_days example_goal)) = 6
   \<and> (\<exists>r. longRunsOfWeek 2 (newRows empty_db (snd (generateTrainingPlan 11 3 example_goal empty_db)))
             = [r]
          \<and> workout_type r = ''long'' \<and> getDay (date r) = 6 \<and> startOfWeek (date r) = 18)"
proof -
  let ?res = "fst (generateTrainingPlan 11 3 example_goal empty_db)"
  let ?s' = "snd (generateTrainingPlan 11 3 example_goal empty_db)"
  have rec: "recognizedDays (available_days example_goal) \<noteq> []" by code_simp
  have ord: "ordinaryNames example_goal" by code_simp
  have L: "spec_longRunDay (recognizedDays (available_days example_goal)) = 6" by code_simp
  have M: "addWeeks (startOfWeek 11) (2 - 1) = 18" by code_simp
  have w: "(1::nat) \<le> 2" "(2::nat) \<le> nat (max 1 3)" by simp_all
  have seq: "seq_training_plans empty_db + 1 = 1" by code_simp
  have run: "generateTrainingPlan 11 3 example_goal empty_db = (?res, ?s')"
    by (rule surjective_pairing)
  note th = generateTrainingPlan_long_runs [OF rec run]
  have f: "?res = Inr 1" using th ord unfolding seq by blast
  from th f w have "\<exists>r. longRunsOfWeek 2 (newRows empty_db ?s') = [r]
      \<and> workout_type r = ''long''
      \<and> getDay (date r) = spec_longRunDay (recognizedDays (available_days example_goal))
      \<and> startOfWeek (date r) = addWeeks (startOfWeek 11) (2 - 1)"
    by blast
  then have "\<exists>r. longRunsOfWeek 2 (newRows empty_db ?s') = [r]
      \<and> workout_type r = ''long'' \<and> getDay (date r) = 6 \<and> startOfWeek (date r) = 18"
    unfolding L M .
  then show ?thesis using rec ord f w L by (intro conjI)
qed

lemma appended_mono:
  assumes "appended Q s t" and "\<And>r. Q r \<Longrightarrow> Q' r"
  shows "appended Q' s t"
  using assms unfolding appended_def by blast

lemma appended_generateWeekWorkouts_beginner:
  "appended beginnerRow s
     (snd (generateWeekWorkouts p u k weekStart days vol ''beginner'' wd we ph s))"
proof -
  define dn where "dn = dayNumbersOf days"
  define T where "T = getWorkoutTemplates ''beginner'' ph"
  define lrd where "lrd = (if length (filter isWeekend dn) > 0 then Math_max (filter isWeekend dn)
                           else Math_max dn)"
  define kc where "kc = filter (\<lambda>d. d \<noteq> lrd \<and> notAdjacent d lrd) dn"
  define kd where "kd = (if length kc > 0 then Some (kc ! (length kc div 2))
                         else find (\<lambda>d. d \<noteq> lrd) dn)"
  define ldur where "ldur = Math_min (map_option (\<lambda>v. js_round (v * 0.35)) vol)
                              (if isWeekend lrd then we else wd)"
  define ed where "ed = filter (\<lambda>d. d \<noteq> lrd \<and> Some d \<noteq> kd) dn"
  define I1 where "I1 = insertWorkout p u (addDays weekStart (dayOffset lrd)) k (\<lambda>t. ''long'')
                          (find (\<lambda>t. t_type t = ''long'') T) ldur 1 1 s"
  show ?thesis
  proof (cases "length dn = 0")
    case True
    then have "generateWeekWorkouts p u k weekStart days vol ''beginner'' wd we ph s = (None, s)"
      unfolding generateWeekWorkouts_def Let_def dn_def [symmetric] by simp
    then show ?thesis by (simp add: appended_refl)
  next
    case False
    have eq: "generateWeekWorkouts p u k weekStart days vol ''beginner'' wd we ph s =
      (case I1 of
         (Some e, s1) \<Rightarrow> (Some e, s1)
       | (None, s1) \<Rightarrow>
           (case insertKeyWorkout p u k weekStart T kd ''beginner'' (js_minus vol ldur) wd we s1 of
              (Some e, s2, _) \<Rightarrow> (Some e, s2)
            | (None, s2, rv1) \<Rightarrow> insertEasyRuns p u k weekStart T ed rv1 wd we s2))"
      unfolding generateWeekWorkouts_def Let_def
      unfolding dn_def [symmetric] T_def [symmetric]
      unfolding lrd_def [symmetric]
      unfolding kc_def [symmetric]
      unfolding kd_def [symmetric] ldur_def [symmetric]
      unfolding ed_def [symmetric] I1_def [symmetric]
      using False by simp
    obtain e1 s1 where I: "I1 = (e1, s1)" by (cases I1) auto
    have a1: "appended beginnerRow s s1"
      using appended_insertWorkout [of beginnerRow p u k "\<lambda>t. ''long''" 1 1 s
          "addDays weekStart (dayOffset lrd)" "find (\<lambda>t. t_type t = ''long'') T" ldur]
      unfolding I1_def [symmetric] I by (simp add: beginnerRow_def)
    have later: "\<And>r. laterRow p k ''beginner'' r \<Longrightarrow> beginnerRow r"
      by (simp add: laterRow_def beginnerRow_def)
    obtain e2 s2 rv1 where K: "insertKeyWorkout p u k weekStart T kd ''beginner''
        (js_minus vol ldur) wd we s1 = (e2, s2, rv1)"
      by (cases "insertKeyWorkout p u k weekStart T kd ''beginner'' (js_minus vol ldur) wd we s1")
         auto
    have "appended (laterRow p k ''beginner'') s1 s2"
      using appended_insertKeyWorkout [of p k "''beginner''" s1 u weekStart T kd
          "js_minus vol ldur" wd we]
      unfolding K by simp
    then have a2: "appended beginnerRow s1 s2" by (rule appended_mono) (rule later)
    obtain e3 s3 where E: "insertEasyRuns p u k weekStart T ed rv1 wd we s2 = (e3, s3)"
      by (cases "insertEasyRuns p u k weekStart T ed rv1 wd we s2") auto
    have "appended (laterRow p k ''beginner'') s2 s3"
      using appended_insertEasyRuns [of p k "''beginner''" s2 u weekStart T ed rv1 wd we]
      unfolding E by simp
    then have a3: "appended beginnerRow s2 s3" by (rule appended_mono) (rule later)
    have a12: "appended beginnerRow s s2" by (rule appended_trans [OF a1 a2])
    have a13: "appended beginnerRow s s3" by (rule appended_trans [OF a12 a3])
    show ?thesis
    proof (cases e1)
      case (Some e)
      then show ?thesis unfolding eq I using a1 by simp
    next
      case None
      note e1 = None
      show ?thesis
      proof (cases e2)
        case (Some e)
        then show ?thesis unfolding eq I e1 using K a12 by simp
      next
        case None
        then show ?thesis unfolding eq I e1 using K E a13 by simp
      qed
    qed
  qed
qed

lemma generateTrainingPlan_beginner:
  assumes "experience_level goal = ''beginner''"
  shows "appended beginnerRow s (snd (generateTrainingPlan today weeksToRace goal s))"
proof -
  let ?tw = "nat (max 1 weeksToRace)"
  let ?body = "\<lambda>week. generateWeekWorkouts (seq_training_plans s + 1) (g_user_id goal) week
                 (addWeeks (startOfWeek today) (week - 1)) (available_days goal)
                 (weeklyVolumeFor (selectRaceConfig (race_distance goal))
                    (selectExperienceMultiplier ''beginner'') week
                    ?tw (current_frequency goal) (longest_recent_run goal))
                 ''beginner'' (max_weekday_time goal) (max_weekend_time goal)
                 (weekPhase week ?tw)"
  define s1 where "s1 = insertPlan (g_id goal) (g_user_id goal) today (race_date goal) s"
  define F where "F = forEach ?body [1 ..< Suc ?tw] s1"
  have g: "generateTrainingPlan today weeksToRace goal s =
          (case F of (Some e, s2) \<Rightarrow> (Inl e, s2)
                   | (None, s2) \<Rightarrow> (Inr (seq_training_plans s + 1), s2))"
    unfolding F_def s1_def generateTrainingPlan_unfold assms by (rule refl)
  have "snd (case F of (Some e, s2) \<Rightarrow> (Inl e, s2)
                   | (None, s2) \<Rightarrow> (Inr (seq_training_plans s + 1), s2)) = snd F"
    by (cases F; cases "fst F") auto
  then have sn: "snd (generateTrainingPlan today weeksToRace goal s) = snd F" unfolding g .
  have "appended beginnerRow s1 (snd F)"
    unfolding F_def by (rule appended_forEach) (rule appended_generateWeekWorkouts_beginner)
  then show ?thesis
    unfolding sn appended_def s1_def workouts_insertPlan .
qed

text \<open>
  A beginner's plan holds easy runs and long runs only, whatever the goal and the store.
\<close>

lemma generateTrainingPlan_beginner_types:
  assumes "experience_level goal = ''beginner''"
    and "r \<in> set (newRows s (snd (generateTrainingPlan today weeksToRace goal s)))"
  shows "workout_type r = ''easy'' \<or> workout_type r = ''long''"
proof -
  from generateTrainingPlan_beginner [OF assms(1), of s today weeksToRace]
  obtain rows where rows: "workouts (snd (generateTrainingPlan today weeksToRace goal s))
      = workouts s @ rows" "\<forall>r \<in> set rows. beginnerRow r"
    unfolding appended_def by blast
  have "newRows s (snd (generateTrainingPlan today weeksToRace goal s)) = rows"
    unfolding newRows_def rows(1) by simp
  then show ?thesis using assms(2) rows(2) unfolding beginnerRow_def by blast
qed

text \<open>
  C3, the number of workouts. For the beginner's 5k goal with Monday and Wednesday
  permitted, three weeks before the race, the plan has one workout a week, the long run
  on Wednesday: Monday is set aside for the key workout, which a beginner does not get,
  and is not among the days of the easy runs.
\<close>

theorem generateTrainingPlan_beginner_two_days:
  "fst (generateTrainingPlan 11 3 beginner_goal empty_db) = Inr 1
   \<and> map rowSummary (workouts (snd (generateTrainingPlan 11 3 beginner_goal empty_db)))
       = [(1, ''long'', 13, 26), (2, ''long'', 20, 28), (3, ''long'', 27, 15)]
   \<and> map (\<lambda>k. length (filter (\<lambda>r. week_number r = k)
                 (workouts (snd (generateTrainingPlan 11 3 beginner_goal empty_db)))))
         [1, 2, 3] = [1, 1, 1]"
  by code_simp

lemma js_get_None:
  "key \<notin> set (map fst table) \<Longrightarrow> key \<notin> set object_prototype_keys \<Longrightarrow> js_get table key = None"
  unfolding js_get_def by (simp add: map_of_eq_None_iff [THEN iffD2])

lemma selectRaceConfig_fallback:
  assumes "d \<notin> set (map fst RACE_CONFIGS)" and "d \<notin> set object_prototype_keys"
  shows "selectRaceConfig d = Own \<lparr> baseWeeks = 8, peakLongRun = 45, peakWeeklyMinutes = 150 \<rparr>"
  unfolding selectRaceConfig_def js_get_None [OF assms] by simp

lemma selectExperienceMultiplier_fallback:
  assumes "l \<notin> set (map fst EXPERIENCE_MULTIPLIERS)" and "l \<notin> set object_prototype_keys"
  shows "selectExperienceMultiplier l = Own 1"
  unfolding selectExperienceMultiplier_def js_get_None [OF assms] by simp

text \<open>
  C10. A race distance or an experience level that names a property of
  \<open>Object.prototype\<close> is no key of the tables, yet the lookup finds the
  inherited member and the fallback is not taken: with the distance
  \<open>constructor\<close>, or the level \<open>toString\<close>, the weekly volume is not a
  number and \<open>generateTrainingPlan\<close> throws at the first insertion, leaving the
  plan row without workouts.
\<close>

theorem generateTrainingPlan_inherited_name:
  "''constructor'' \<notin> set (map fst RACE_CONFIGS)
   \<and> selectRaceConfig ''constructor'' = Inherited ''constructor''
   \<and> fst (generateTrainingPlan 11 3 (example_goal\<lparr>race_distance := ''constructor''\<rparr>) empty_db)
       = Inl SqliteError
   \<and> workouts (snd (generateTrainingPlan 11 3
         (example_goal\<lparr>race_distance := ''constructor''\<rparr>) empty_db)) = []
   \<and> length (training_plans (snd (generateTrainingPlan 11 3
         (example_goal\<lparr>race_distance := ''constructor''\<rparr>) empty_db))) = 1
   \<and> ''toString'' \<notin> set (map fst EXPERIENCE_MULTIPLIERS)
   \<and> selectExperienceMultiplier ''toString'' = Inherited ''toString''
   \<and> fst (generateTrainingPlan 11 3 (example_goal\<lparr>experience_level := ''toString''\<rparr>) empty_db)
       = Inl SqliteError"
  by code_simp

end
